theory Spec2Isabelle
  imports Complex_Main "HOL-Library.Word" "HOL-Library.Multiset"
begin

unbundle bit_operations_syntax

section \<open>JavaScript strings and BigInt\<close>

text \<open>
  A JavaScript string is modelled as an Isabelle \<open>string\<close>: the strings whose UTF-16
  code units are all below 256 (ASCII and Latin-1). Addresses, amounts, memos and
  transaction hashes are ASCII; the Latin-1 half keeps \<^verbatim>\<open>toLowerCase\<close> and the UTF-8
  encoding from being trivial.
\<close>

definition upperChars :: string where
  "upperChars = ''ABCDEFGHIJKLMNOPQRSTUVWXYZ'' @
     [CHR 0xC0, CHR 0xC1, CHR 0xC2, CHR 0xC3, CHR 0xC4, CHR 0xC5, CHR 0xC6, CHR 0xC7,
      CHR 0xC8, CHR 0xC9, CHR 0xCA, CHR 0xCB, CHR 0xCC, CHR 0xCD, CHR 0xCE, CHR 0xCF,
      CHR 0xD0, CHR 0xD1, CHR 0xD2, CHR 0xD3, CHR 0xD4, CHR 0xD5, CHR 0xD6,
      CHR 0xD8, CHR 0xD9, CHR 0xDA, CHR 0xDB, CHR 0xDC, CHR 0xDD, CHR 0xDE]"

definition lowerChars :: string where
  "lowerChars = ''abcdefghijklmnopqrstuvwxyz'' @
     [CHR 0xE0, CHR 0xE1, CHR 0xE2, CHR 0xE3, CHR 0xE4, CHR 0xE5, CHR 0xE6, CHR 0xE7,
      CHR 0xE8, CHR 0xE9, CHR 0xEA, CHR 0xEB, CHR 0xEC, CHR 0xED, CHR 0xEE, CHR 0xEF,
      CHR 0xF0, CHR 0xF1, CHR 0xF2, CHR 0xF3, CHR 0xF4, CHR 0xF5, CHR 0xF6,
      CHR 0xF8, CHR 0xF9, CHR 0xFA, CHR 0xFB, CHR 0xFC, CHR 0xFD, CHR 0xFE]"

definition lowerChar :: "char \<Rightarrow> char" where
  "lowerChar c = (case map_of (zip upperChars lowerChars) c of None \<Rightarrow> c | Some d \<Rightarrow> d)"

definition toLowerCase :: "string \<Rightarrow> string" where
  \<comment> \<open>\<^verbatim>\<open>String.prototype.toLowerCase\<close>: A-Z and the Latin-1 capitals (not the
      multiplication sign 0xD7) move up by 32, everything else stays\<close>
  "toLowerCase s = map lowerChar s"

definition isDigit :: "char \<Rightarrow> bool" where
  "isDigit c = (c \<in> set ''0123456789'')"

definition isHexDigit :: "char \<Rightarrow> bool" where
  "isHexDigit c = (c \<in> set ''0123456789abcdefABCDEF'')"

definition isAmountString :: "string \<Rightarrow> bool" where
  \<comment> \<open>the regular expression \<^verbatim>\<open>/^[0-9]+$/\<close>\<close>
  "isAmountString s = (s \<noteq> [] \<and> list_all isDigit s)"

definition digitValue :: "char \<Rightarrow> nat option" where
  "digitValue c =
     map_of (zip ''0123456789abcdefABCDEF''
               [0, 1, 2, 3, 4, 5, 6, 7, 8, 9, 10, 11, 12, 13, 14, 15, 10, 11, 12, 13, 14, 15]) c"

fun parseDigits :: "nat \<Rightarrow> int \<Rightarrow> string \<Rightarrow> int option" where
  \<comment> \<open>the digits of a numeral in the given radix, most significant first\<close>
  "parseDigits radix acc [] = Some acc"
| "parseDigits radix acc (c # cs) =
     (case digitValue c of
        None \<Rightarrow> None
      | Some d \<Rightarrow> if d < radix then parseDigits radix (acc * int radix + int d) cs else None)"

definition parseNumeral :: "nat \<Rightarrow> string \<Rightarrow> int option" where
  "parseNumeral radix s = (if s = [] then None else parseDigits radix 0 s)"

definition isStrWhiteSpaceChar :: "char \<Rightarrow> bool" where
  \<comment> \<open>white space and line terminators below 256: TAB, LF, VT, FF, CR, SP, NBSP\<close>
  "isStrWhiteSpaceChar c =
     (c \<in> set [CHR 0x09, CHR 0x0A, CHR 0x0B, CHR 0x0C, CHR 0x0D, CHR 0x20, CHR 0xA0])"

definition trimString :: "string \<Rightarrow> string" where
  "trimString s = rev (dropWhile isStrWhiteSpaceChar (rev (dropWhile isStrWhiteSpaceChar s)))"

definition BigInt :: "string \<Rightarrow> int option" where
  \<comment> \<open>\<^verbatim>\<open>BigInt(string)\<close> (StringToBigInt of ECMAScript); \<open>None\<close> is the SyntaxError.
      White space is trimmed, the empty text is 0, a decimal numeral may carry a sign,
      and 0x, 0o, 0b numerals may not.\<close>
  "BigInt s =
     (let t = trimString s in
      if t = [] then Some 0
      else if take 2 t = ''0x'' \<or> take 2 t = ''0X'' then parseNumeral 16 (drop 2 t)
      else if take 2 t = ''0o'' \<or> take 2 t = ''0O'' then parseNumeral 8 (drop 2 t)
      else if take 2 t = ''0b'' \<or> take 2 t = ''0B'' then parseNumeral 2 (drop 2 t)
      else (case t of
              c # r \<Rightarrow>
                if c = CHR ''+'' then parseNumeral 10 r
                else if c = CHR ''-'' then map_option uminus (parseNumeral 10 r)
                else parseNumeral 10 t
            | [] \<Rightarrow> Some 0))"

definition decimalValue :: "string \<Rightarrow> int" where
  \<comment> \<open>the integer a string of decimal digits denotes\<close>
  "decimalValue s =
     foldl (\<lambda>acc c. acc * 10 + (case digitValue c of None \<Rightarrow> 0 | Some d \<Rightarrow> int d)) 0 s"

section \<open>Addresses (viem)\<close>

text \<open>
  \<^verbatim>\<open>isAddress\<close> comes from the viem library: the text must match
  \<^verbatim>\<open>/^0x[a-fA-F0-9]{40}$/\<close>; an all-lower-case text is then accepted, any other casing
  only when it is the EIP-55 checksum spelling, which viem computes from the Keccak-256
  hash of the lower-cased hexadecimal digits.
\<close>

type_synonym lane = "64 word"

definition keccak_round_constants :: "lane list" where
  "keccak_round_constants =
    [0x0000000000000001, 0x0000000000008082, 0x800000000000808A, 0x8000000080008000,
     0x000000000000808B, 0x0000000080000001, 0x8000000080008081, 0x8000000000008009,
     0x000000000000008A, 0x0000000000000088, 0x0000000080008009, 0x000000008000000A,
     0x000000008000808B, 0x800000000000008B, 0x8000000000008089, 0x8000000000008003,
     0x8000000000008002, 0x8000000000000080, 0x000000000000800A, 0x800000008000000A,
     0x8000000080008081, 0x8000000000008080, 0x0000000080000001, 0x8000000080008008]"

definition keccak_rotation_offsets :: "nat list" where
  \<comment> \<open>lane \<open>(x, y)\<close> is at index \<open>x + 5 * y\<close>\<close>
  "keccak_rotation_offsets =
    [0, 1, 62, 28, 27,
     36, 44, 6, 55, 20,
     3, 10, 43, 25, 39,
     41, 45, 15, 21, 8,
     18, 2, 61, 56, 14]"

definition keccak_theta :: "lane list \<Rightarrow> lane list" where
  "keccak_theta a =
     (let c = map (\<lambda>x. a ! x XOR a ! (x + 5) XOR a ! (x + 10) XOR a ! (x + 15) XOR a ! (x + 20)) [0..<5];
          d = map (\<lambda>x. c ! ((x + 4) mod 5) XOR word_rotl 1 (c ! ((x + 1) mod 5))) [0..<5]
      in map (\<lambda>i. a ! i XOR d ! (i mod 5)) [0..<25])"

definition keccak_rho_pi :: "lane list \<Rightarrow> lane list" where
  \<comment> \<open>the lane that lands at \<open>(X, Y)\<close> comes from \<open>(x, y) = (X + 3 * Y, X)\<close>\<close>
  "keccak_rho_pi a =
     map (\<lambda>j. let x = (j mod 5 + 3 * (j div 5)) mod 5; y = j mod 5
              in word_rotl (keccak_rotation_offsets ! (x + 5 * y)) (a ! (x + 5 * y))) [0..<25]"

definition keccak_chi :: "lane list \<Rightarrow> lane list" where
  "keccak_chi b =
     map (\<lambda>j. let x = j mod 5; y = j div 5
              in b ! j XOR (NOT (b ! ((x + 1) mod 5 + 5 * y)) AND b ! ((x + 2) mod 5 + 5 * y))) [0..<25]"

definition keccak_iota :: "nat \<Rightarrow> lane list \<Rightarrow> lane list" where
  "keccak_iota r a = a[0 := a ! 0 XOR keccak_round_constants ! r]"

definition keccak_f1600 :: "lane list \<Rightarrow> lane list" where
  "keccak_f1600 a =
     foldl (\<lambda>s r. keccak_iota r (keccak_chi (keccak_rho_pi (keccak_theta s)))) a [0..<24]"

definition lane_of_bytes :: "nat list \<Rightarrow> lane" where
  "lane_of_bytes bs = word_of_nat (foldr (\<lambda>b acc. b + 256 * acc) bs 0)"

definition bytes_of_lane :: "lane \<Rightarrow> nat list" where
  "bytes_of_lane w = map (\<lambda>i. (unat w div 256 ^ i) mod 256) [0..<8]"

definition keccak_pad :: "nat list \<Rightarrow> nat list" where
  \<comment> \<open>rate 136 bytes, padding 0x01 .. 0x80\<close>
  "keccak_pad m =
     (let k = 136 - (length m mod 136)
      in if k = 1 then m @ [129] else m @ [1] @ replicate (k - 2) 0 @ [128])"

definition keccak_absorb :: "lane list \<Rightarrow> nat list \<Rightarrow> lane list" where
  "keccak_absorb s block =
     keccak_f1600
       (map (\<lambda>i. if i < 17 then s ! i XOR lane_of_bytes (take 8 (drop (8 * i) block)) else s ! i)
          [0..<25])"

definition keccak256 :: "nat list \<Rightarrow> nat list" where
  "keccak256 m =
     (let p = keccak_pad m;
          s = foldl (\<lambda>s i. keccak_absorb s (take 136 (drop (136 * i) p))) (replicate 25 0)
                [0..<length p div 136]
      in concat (map bytes_of_lane (take 4 s)))"

definition upperHexChar :: "char \<Rightarrow> char" where
  \<comment> \<open>\<^verbatim>\<open>toUpperCase\<close> on one hexadecimal digit\<close>
  "upperHexChar c = (case map_of (zip ''abcdef'' ''ABCDEF'') c of None \<Rightarrow> c | Some d \<Rightarrow> d)"

definition checksumCase :: "string \<Rightarrow> string" where
  \<comment> \<open>viem: digit \<open>i\<close> of the lower-cased digits is upper-cased when nibble \<open>i\<close> of
      their hash is 8 or more\<close>
  "checksumCase hexAddress =
     (let hash = keccak256 (map of_char hexAddress);
          nibble = (\<lambda>i. if even i then (hash ! (i div 2)) div 16 else (hash ! (i div 2)) mod 16)
      in map (\<lambda>i. if nibble i \<ge> 8 then upperHexChar (hexAddress ! i) else hexAddress ! i)
           [0..<length hexAddress])"

definition checksumAddress :: "string \<Rightarrow> string" where
  "checksumAddress address = ''0x'' @ checksumCase (toLowerCase (drop 2 address))"

definition addressRegex :: "string \<Rightarrow> bool" where
  \<comment> \<open>\<^verbatim>\<open>/^0x[a-fA-F0-9]{40}$/\<close>\<close>
  "addressRegex s = (take 2 s = ''0x'' \<and> length s = 42 \<and> list_all isHexDigit (drop 2 s))"

definition isAddress :: "string \<Rightarrow> bool" where
  "isAddress address =
     (if \<not> addressRegex address then False
      else if toLowerCase address = address then True
      else checksumAddress address = address)"

section \<open>Canonical codec (shared/invoice.ts, api/invoices.ts)\<close>

text \<open>
  JSON-like values. The type of numbers is a parameter: the text of a number is the
  host's number-to-string mapping, passed to \<open>canonicalStringify\<close> as \<open>num\<close>. An
  object is the list \<^verbatim>\<open>Object.entries\<close> returns for it (keys distinct).
\<close>

datatype 'n json =
    JNull
  | JBool bool
  | JNumber 'n
  | JString string
  | JArray "'n json list"
  | JObject "(string \<times> 'n json) list"

fun join :: "string \<Rightarrow> string list \<Rightarrow> string" where
  \<comment> \<open>\<^verbatim>\<open>Array.prototype.join\<close>\<close>
  "join sep [] = []"
| "join sep [x] = x"
| "join sep (x # y # ys) = x @ sep @ join sep (y # ys)"

definition hexDigitChar :: "nat \<Rightarrow> char" where
  "hexDigitChar n = ''0123456789abcdef'' ! n"

definition escapeJSONChar :: "char \<Rightarrow> string" where
  \<comment> \<open>QuoteJSONString of ECMAScript, one code unit\<close>
  "escapeJSONChar c =
     (if c = CHR 0x08 then [CHR 0x5C, CHR ''b'']
      else if c = CHR 0x09 then [CHR 0x5C, CHR ''t'']
      else if c = CHR 0x0A then [CHR 0x5C, CHR ''n'']
      else if c = CHR 0x0C then [CHR 0x5C, CHR ''f'']
      else if c = CHR 0x0D then [CHR 0x5C, CHR ''r'']
      else if c = CHR 0x22 then [CHR 0x5C, CHR 0x22]
      else if c = CHR 0x5C then [CHR 0x5C, CHR 0x5C]
      else if (of_char c :: nat) < 32
        then [CHR 0x5C, CHR ''u'', CHR ''0'', CHR ''0'',
              hexDigitChar (of_char c div 16), hexDigitChar (of_char c mod 16)]
      else [c])"

definition quoteJSONString :: "string \<Rightarrow> string" where
  \<comment> \<open>\<^verbatim>\<open>JSON.stringify\<close> of a string\<close>
  "quoteJSONString s = [CHR 0x22] @ concat (map escapeJSONChar s) @ [CHR 0x22]"

fun insertEntry :: "(string \<Rightarrow> string \<Rightarrow> int) \<Rightarrow> string \<times> 'v \<Rightarrow> (string \<times> 'v) list \<Rightarrow> (string \<times> 'v) list" where
  "insertEntry cmp x [] = [x]"
| "insertEntry cmp x (y # ys) =
     (if cmp (fst x) (fst y) \<le> 0 then x # y # ys else y # insertEntry cmp x ys)"

definition sortEntries :: "(string \<Rightarrow> string \<Rightarrow> int) \<Rightarrow> (string \<times> 'v) list \<Rightarrow> (string \<times> 'v) list" where
  \<comment> \<open>\<^verbatim>\<open>entries.sort(([a], [b]) => cmp(a, b))\<close>: \<^verbatim>\<open>Array.prototype.sort\<close> is stable, so
      for a consistent comparator it returns what a stable insertion sort returns\<close>
  "sortEntries cmp es = foldr (insertEntry cmp) es []"

lemma set_insertEntry: "set (insertEntry cmp x ys) = insert x (set ys)"
  by (induction ys) auto

lemma set_sortEntries: "set (sortEntries cmp es) = set es"
  by (induction es) (auto simp: sortEntries_def set_insertEntry)

function (sequential) canonicalStringify ::
  "(string \<Rightarrow> string \<Rightarrow> int) \<Rightarrow> ('n \<Rightarrow> string) \<Rightarrow> 'n json \<Rightarrow> string" where
  "canonicalStringify cmp num (JArray xs) =
     ''['' @ join '','' (map (\<lambda>item. canonicalStringify cmp num item) xs) @ '']''"
| "canonicalStringify cmp num (JObject es) =
     ''{'' @ join '',''
        (map (\<lambda>(key, itemValue). quoteJSONString key @ '':'' @ canonicalStringify cmp num itemValue)
           (sortEntries cmp es)) @ ''}''"
| "canonicalStringify cmp num JNull = ''null''"
| "canonicalStringify cmp num (JBool b) = (if b then ''true'' else ''false'')"
| "canonicalStringify cmp num (JNumber n) = num n"
| "canonicalStringify cmp num (JString s) = quoteJSONString s"
  by pat_completeness auto
termination
proof (relation "measure (\<lambda>(cmp, num, v). size v)")
  show "wf (measure (\<lambda>(cmp, num, v). size v))" by simp
next
  fix cmp :: "string \<Rightarrow> string \<Rightarrow> int" and num :: "'n \<Rightarrow> string" and xs :: "'n json list" and item
  assume "item \<in> set xs"
  then have "size item \<le> size_list size xs" by (rule size_list_estimation') simp
  then show "((cmp, num, item), (cmp, num, JArray xs)) \<in> measure (\<lambda>(cmp, num, v). size v)"
    by simp
next
  fix cmp :: "string \<Rightarrow> string \<Rightarrow> int" and num :: "'n \<Rightarrow> string"
    and es :: "(string \<times> 'n json) list" and x key itemValue
  assume "x \<in> set (sortEntries cmp es)" and "(key, itemValue) = x"
  then have "(key, itemValue) \<in> set es" by (simp add: set_sortEntries)
  then have "size_prod (\<lambda>_. 0) size (key, itemValue) \<le> size_list (size_prod (\<lambda>_. 0) size) es"
    by (rule size_list_estimation') simp
  then show "((cmp, num, itemValue), (cmp, num, JObject es)) \<in> measure (\<lambda>(cmp, num, v). size v)"
    by simp
qed

text \<open>
  The comparator of the source is \<^verbatim>\<open>a.localeCompare(b)\<close>, the collation of the host's
  default locale (ICU). It is not in the repository, so \<open>canonicalStringify\<close> takes the
  comparator as \<open>cmp\<close>. The definition below gives the root collation on strings of
  ASCII letters and digits: digits before letters, letters alphabetically whatever
  their case and, between strings that differ in case only, lower case first at the
  first difference. On any other string it compares code units, which the host does not;
  no statement below evaluates it there.
\<close>

definition collationWeight :: "char \<Rightarrow> nat option" where
  "collationWeight c =
     map_of (zip ''0123456789abcdefghijklmnopqrstuvwxyzABCDEFGHIJKLMNOPQRSTUVWXYZ''
               [0, 1, 2, 3, 4, 5, 6, 7, 8, 9,
                10, 11, 12, 13, 14, 15, 16, 17, 18, 19, 20, 21, 22, 23, 24, 25, 26, 27, 28,
                29, 30, 31, 32, 33, 34, 35,
                10, 11, 12, 13, 14, 15, 16, 17, 18, 19, 20, 21, 22, 23, 24, 25, 26, 27, 28,
                29, 30, 31, 32, 33, 34, 35]) c"

fun compareLists :: "nat list \<Rightarrow> nat list \<Rightarrow> int" where
  \<comment> \<open>lexicographic comparison: -1, 0 or 1\<close>
  "compareLists [] [] = 0"
| "compareLists [] (y # ys) = -1"
| "compareLists (x # xs) [] = 1"
| "compareLists (x # xs) (y # ys) =
     (if x < y then -1 else if y < x then 1 else compareLists xs ys)"

definition codeUnitCompare :: "string \<Rightarrow> string \<Rightarrow> int" where
  \<comment> \<open>the order of raw code units\<close>
  "codeUnitCompare a b = compareLists (map of_char a) (map of_char b)"

definition localeCompare_alnum :: "string \<Rightarrow> string \<Rightarrow> int" where
  "localeCompare_alnum a b =
     (if list_all (\<lambda>c. collationWeight c \<noteq> None) (a @ b) then
        (let primary = compareLists (map (\<lambda>c. the (collationWeight c)) a)
                                    (map (\<lambda>c. the (collationWeight c)) b)
         in if primary \<noteq> 0 then primary
            else compareLists (map (\<lambda>c. if c \<in> set upperChars then 1 else 0) a)
                              (map (\<lambda>c. if c \<in> set upperChars then 1 else 0) b))
      else codeUnitCompare a b)"

section \<open>Invoice protocol (shared/invoice.ts)\<close>

subsection \<open>Memo derivation\<close>

definition utf8Bytes :: "string \<Rightarrow> nat list" where
  \<comment> \<open>UTF-8 of code units below 256: one byte below 128, two bytes from 128 on\<close>
  "utf8Bytes s =
     concat (map (\<lambda>c. let n = (of_char c :: nat)
                       in if n < 128 then [n] else [192 + n div 64, 128 + n mod 64]) s)"

definition bytesToHex :: "nat list \<Rightarrow> string" where
  "bytesToHex bs = concat (map (\<lambda>b. [hexDigitChar (b div 16), hexDigitChar (b mod 16)]) bs)"

definition stringToHex :: "string \<Rightarrow> string" where
  \<comment> \<open>viem: the UTF-8 bytes of the text as \<^verbatim>\<open>0x\<close> hexadecimal\<close>
  "stringToHex s = ''0x'' @ bytesToHex (utf8Bytes s)"

datatype viem_error = SizeExceedsPaddingSizeError

definition pad :: "string \<Rightarrow> nat \<Rightarrow> viem_error + string" where
  \<comment> \<open>viem \<^verbatim>\<open>pad(hex, { size })\<close>: the direction defaults to the left, so zeros are put
      in front; a value longer than \<open>size\<close> bytes is refused\<close>
  "pad hexValue sz =
     (let hex = drop 2 hexValue in
      if length hex > sz * 2 then Inl SizeExceedsPaddingSizeError
      else Inr (''0x'' @ replicate (sz * 2 - length hex) (CHR ''0'') @ hex))"

definition createInvoiceMemo :: "string \<Rightarrow> viem_error + string" where
  \<comment> \<open>shared/invoice.ts: \<^verbatim>\<open>pad(stringToHex(invoiceId), { size: 32 })\<close>\<close>
  "createInvoiceMemo invoiceId = pad (stringToHex invoiceId) 32"

definition createInvoiceMemo_handler :: "string \<Rightarrow> string" where
  \<comment> \<open>api/invoices.ts: \<^verbatim>\<open>(hex + '0'.repeat(64)).slice(0, 64)\<close>\<close>
  "createInvoiceMemo_handler invoiceId =
     (let hex = bytesToHex (utf8Bytes invoiceId);
          padded = take 64 (hex @ replicate 64 (CHR ''0''))
      in ''0x'' @ padded)"

definition deriveMemo_spec :: "string \<Rightarrow> string" where
  \<comment> \<open>the specification's words: the UTF-8 bytes, right-padded with zero bytes to 32
      bytes, cut to the first 32 bytes when longer\<close>
  "deriveMemo_spec invoiceId =
     ''0x'' @ bytesToHex (take 32 (utf8Bytes invoiceId @ replicate 32 0))"

subsection \<open>Typed invoices\<close>

record InvoiceLineItemV1 =
  item_id :: "string option"
  title :: string
  category :: "string option"
  quantity :: "int option"
  unitAmount :: "string option"
  totalAmount :: string

datatype metadataValue = MString string | MNumber int | MBool bool

record InvoiceV1 =
  version :: string
  invoiceId :: string
  issuedAt :: int
  dueAt :: int
  chainId :: int
  merchant :: string
  recipient :: string
  payer :: "string option"
  token :: string
  amount :: string
  memo :: string
  description :: string
  merchantReference :: "string option"
  purpose :: "string option"
  lineItems :: "InvoiceLineItemV1 list option"
  metadata :: "(string \<times> metadataValue) list option"
  merchantSig :: string

definition INVOICE_VERSION :: string where
  "INVOICE_VERSION = ''tempo.invoice.v1''"

subsection \<open>Untyped values and their coercions\<close>

text \<open>
  \<^verbatim>\<open>assertInvoiceV1\<close> and \<^verbatim>\<open>normalizeLineItems\<close> take a value of type \<^verbatim>\<open>unknown\<close>: a
  JSON value with rational numbers (NaN and the infinities are left out). A property
  that is absent reads as \<^verbatim>\<open>undefined\<close>, here \<open>None\<close>.
\<close>

type_synonym jsvalue = "rat json"

definition getProp :: "jsvalue \<Rightarrow> string \<Rightarrow> jsvalue option" where
  "getProp v name = (case v of JObject es \<Rightarrow> map_of es name | _ \<Rightarrow> None)"

definition isObjectValue :: "jsvalue \<Rightarrow> bool" where
  \<comment> \<open>\<^verbatim>\<open>typeof v === 'object' && v !== null\<close>\<close>
  "isObjectValue v = (case v of JObject es \<Rightarrow> True | JArray xs \<Rightarrow> True | _ \<Rightarrow> False)"

definition truthy :: "jsvalue option \<Rightarrow> bool" where
  "truthy v =
     (case v of
        None \<Rightarrow> False
      | Some JNull \<Rightarrow> False
      | Some (JBool b) \<Rightarrow> b
      | Some (JNumber n) \<Rightarrow> n \<noteq> 0
      | Some (JString s) \<Rightarrow> s \<noteq> []
      | Some _ \<Rightarrow> True)"

definition isInteger :: "rat \<Rightarrow> bool" where
  "isInteger q = (of_int \<lfloor>q\<rfloor> = q)"

fun toStringJS :: "(rat \<Rightarrow> string) \<Rightarrow> jsvalue \<Rightarrow> string" where
  \<comment> \<open>\<^verbatim>\<open>String(v)\<close>; an array prints its elements joined by commas, null as nothing\<close>
  "toStringJS num JNull = ''null''"
| "toStringJS num (JBool b) = (if b then ''true'' else ''false'')"
| "toStringJS num (JNumber n) = num n"
| "toStringJS num (JString s) = s"
| "toStringJS num (JArray xs) =
     join '','' (map (\<lambda>x. if x = JNull then [] else toStringJS num x) xs)"
| "toStringJS num (JObject es) = ''[object Object]''"

definition toStringOpt :: "(rat \<Rightarrow> string) \<Rightarrow> jsvalue option \<Rightarrow> string" where
  "toStringOpt num v = (case v of None \<Rightarrow> ''undefined'' | Some x \<Rightarrow> toStringJS num x)"

definition testAmountRegex :: "(rat \<Rightarrow> string) \<Rightarrow> jsvalue option \<Rightarrow> bool" where
  \<comment> \<open>\<^verbatim>\<open>/^[0-9]+$/.test(v)\<close>: the value is turned into text first\<close>
  "testAmountRegex num v = isAmountString (toStringOpt num v)"

definition toBigInt :: "(rat \<Rightarrow> string) \<Rightarrow> jsvalue option \<Rightarrow> int option" where
  \<comment> \<open>\<^verbatim>\<open>BigInt(v)\<close>; \<open>None\<close> is the error it throws\<close>
  "toBigInt num v =
     (case v of
        None \<Rightarrow> None
      | Some JNull \<Rightarrow> None
      | Some (JBool b) \<Rightarrow> Some (if b then 1 else 0)
      | Some (JNumber n) \<Rightarrow> if isInteger n then Some \<lfloor>n\<rfloor> else None
      | Some (JString s) \<Rightarrow> BigInt s
      | Some x \<Rightarrow> BigInt (toStringJS num x))"

subsection \<open>Structural validation\<close>

datatype invoice_error =
    NotAnObject
  | MissingOrInvalidField string
  | UnsupportedVersion
  | InvalidTimestampsOrChainId
  | DueAtNotAfterIssuedAt
  | InvalidMerchantAddress
  | InvalidRecipientAddress
  | InvalidPayerAddress
  | InvalidTokenAddress
  | InvalidAmountFormat string
  | BigIntSyntaxError
  | InvalidMemoFormat
  | InvalidMerchantReference
  | InvalidPurpose
  | InvalidLineItems
  | InvalidLineItemShape
  | InvalidLineItemTitle
  | InvalidLineItemTotalAmount
  | InvalidLineItemUnitAmount
  | InvalidLineItemQuantity
  | LineItemSumMismatch
  | InvalidMetadata
  | MetadataNotPrimitive

definition parseAmountString :: "(rat \<Rightarrow> string) \<Rightarrow> jsvalue option \<Rightarrow> string \<Rightarrow> invoice_error + int" where
  "parseAmountString num v field =
     (if \<not> testAmountRegex num v then Inl (InvalidAmountFormat field)
      else (case toBigInt num v of None \<Rightarrow> Inl BigIntSyntaxError | Some n \<Rightarrow> Inr n))"

fun sumLineItemTotals_from :: "(rat \<Rightarrow> string) \<Rightarrow> int \<Rightarrow> jsvalue list \<Rightarrow> invoice_error + int" where
  "sumLineItemTotals_from num subtotal [] = Inr subtotal"
| "sumLineItemTotals_from num subtotal (item # items) =
     (case parseAmountString num (getProp item ''totalAmount'') ''line item totalAmount'' of
        Inl e \<Rightarrow> Inl e
      | Inr v \<Rightarrow> sumLineItemTotals_from num (subtotal + v) items)"

definition sumLineItemTotals :: "(rat \<Rightarrow> string) \<Rightarrow> jsvalue list \<Rightarrow> invoice_error + int" where
  \<comment> \<open>\<^verbatim>\<open>lineItems.reduce((total, item) => total + parseAmountString(...), 0n)\<close>\<close>
  "sumLineItemTotals num items = sumLineItemTotals_from num 0 items"

definition requiredStringFields :: "string list" where
  "requiredStringFields =
     [''version'', ''invoiceId'', ''merchant'', ''recipient'', ''token'', ''amount'', ''memo'',
      ''description'', ''merchantSig'']"

definition isNonEmptyString :: "jsvalue option \<Rightarrow> bool" where
  \<comment> \<open>\<^verbatim>\<open>typeof v === 'string' && v.length > 0\<close>\<close>
  "isNonEmptyString v = (case v of Some (JString s) \<Rightarrow> s \<noteq> [] | _ \<Rightarrow> False)"

definition stringOf :: "jsvalue option \<Rightarrow> string" where
  "stringOf v = (case v of Some (JString s) \<Rightarrow> s | _ \<Rightarrow> [])"

definition isStringValue :: "jsvalue option \<Rightarrow> bool" where
  "isStringValue v = (case v of Some (JString s) \<Rightarrow> True | _ \<Rightarrow> False)"

definition isNumberValue :: "jsvalue option \<Rightarrow> bool" where
  "isNumberValue v = (case v of Some (JNumber n) \<Rightarrow> True | _ \<Rightarrow> False)"

definition numberOf :: "jsvalue option \<Rightarrow> rat" where
  "numberOf v = (case v of Some (JNumber n) \<Rightarrow> n | _ \<Rightarrow> 0)"

definition memoRegex :: "string \<Rightarrow> bool" where
  \<comment> \<open>\<^verbatim>\<open>/^0x[a-fA-F0-9]{64}$/\<close>\<close>
  "memoRegex s = (take 2 s = ''0x'' \<and> length s = 66 \<and> list_all isHexDigit (drop 2 s))"

definition checkLineItem :: "(rat \<Rightarrow> string) \<Rightarrow> jsvalue \<Rightarrow> invoice_error option" where
  \<comment> \<open>the body of the loop over \<^verbatim>\<open>invoice.lineItems\<close>; \<open>None\<close> when nothing is thrown\<close>
  "checkLineItem num lineItem =
     (if \<not> isObjectValue lineItem then Some InvalidLineItemShape
      else if \<not> truthy (getProp lineItem ''title'') \<or> \<not> isStringValue (getProp lineItem ''title'')
        then Some InvalidLineItemTitle
      else if \<not> truthy (getProp lineItem ''totalAmount'')
                \<or> \<not> testAmountRegex num (getProp lineItem ''totalAmount'')
        then Some InvalidLineItemTotalAmount
      else if truthy (getProp lineItem ''unitAmount'')
                \<and> \<not> testAmountRegex num (getProp lineItem ''unitAmount'')
        then Some InvalidLineItemUnitAmount
      else if getProp lineItem ''quantity'' \<noteq> None
                \<and> (\<not> (isNumberValue (getProp lineItem ''quantity'')
                        \<and> isInteger (numberOf (getProp lineItem ''quantity'')))
                     \<or> numberOf (getProp lineItem ''quantity'') \<le> 0)
        then Some InvalidLineItemQuantity
      else None)"

fun checkLineItems :: "(rat \<Rightarrow> string) \<Rightarrow> jsvalue list \<Rightarrow> invoice_error option" where
  "checkLineItems num [] = None"
| "checkLineItems num (lineItem # rest) =
     (case checkLineItem num lineItem of Some e \<Rightarrow> Some e | None \<Rightarrow> checkLineItems num rest)"

definition isPrimitiveMetadata :: "jsvalue \<Rightarrow> bool" where
  "isPrimitiveMetadata v =
     (case v of JString s \<Rightarrow> True | JNumber n \<Rightarrow> True | JBool b \<Rightarrow> True | _ \<Rightarrow> False)"

definition objectValues :: "jsvalue \<Rightarrow> jsvalue list" where
  \<comment> \<open>\<^verbatim>\<open>Object.values\<close> of an object or an array\<close>
  "objectValues v = (case v of JObject es \<Rightarrow> map snd es | JArray xs \<Rightarrow> xs | _ \<Rightarrow> [])"

definition checkLineItemsField :: "(rat \<Rightarrow> string) \<Rightarrow> jsvalue option \<Rightarrow> int \<Rightarrow> invoice_error option" where
  \<comment> \<open>the block \<^verbatim>\<open>if (invoice.lineItems !== undefined) { ... }\<close>\<close>
  "checkLineItemsField num lineItemsValue amountValue =
     (case lineItemsValue of
        None \<Rightarrow> None
      | Some (JArray items) \<Rightarrow>
          (case checkLineItems num items of
             Some e \<Rightarrow> Some e
           | None \<Rightarrow>
               if length items > 0 then
                 (case sumLineItemTotals num items of
                    Inl e \<Rightarrow> Some e
                  | Inr lineItemTotal \<Rightarrow>
                      if lineItemTotal \<noteq> amountValue then Some LineItemSumMismatch else None)
               else None)
      | Some _ \<Rightarrow> Some InvalidLineItems)"

definition checkMetadataField :: "jsvalue option \<Rightarrow> invoice_error option" where
  \<comment> \<open>the block \<^verbatim>\<open>if (invoice.metadata !== undefined) { ... }\<close>\<close>
  "checkMetadataField metadataValue =
     (case metadataValue of
        None \<Rightarrow> None
      | Some m \<Rightarrow>
          if \<not> isObjectValue m then Some InvalidMetadata
          else if \<not> list_all isPrimitiveMetadata (objectValues m) then Some MetadataNotPrimitive
          else None)"

definition assertInvoiceV1 :: "(rat \<Rightarrow> string) \<Rightarrow> jsvalue \<Rightarrow> invoice_error + unit" where
  \<comment> \<open>a truthy payer that is not a string is refused as well: \<^verbatim>\<open>isAddress\<close> turns it
      into text, which is no address or, for an array that prints as one, makes
      \<^verbatim>\<open>toLowerCase\<close> fail; both are \<open>InvalidPayerAddress\<close> here\<close>
  "assertInvoiceV1 num v =
     (if \<not> isObjectValue v then Inl NotAnObject
      else case find (\<lambda>field. \<not> isNonEmptyString (getProp v field)) requiredStringFields of
        Some field \<Rightarrow> Inl (MissingOrInvalidField field)
      | None \<Rightarrow>
      if stringOf (getProp v ''version'') \<noteq> INVOICE_VERSION then Inl UnsupportedVersion
      else if \<not> isNumberValue (getProp v ''issuedAt'') \<or> \<not> isNumberValue (getProp v ''dueAt'')
                \<or> \<not> isNumberValue (getProp v ''chainId'')
        then Inl InvalidTimestampsOrChainId
      else if numberOf (getProp v ''dueAt'') \<le> numberOf (getProp v ''issuedAt'')
        then Inl DueAtNotAfterIssuedAt
      else if \<not> isAddress (stringOf (getProp v ''merchant'')) then Inl InvalidMerchantAddress
      else if \<not> isAddress (stringOf (getProp v ''recipient'')) then Inl InvalidRecipientAddress
      else if truthy (getProp v ''payer'')
                \<and> \<not> (isStringValue (getProp v ''payer'') \<and> isAddress (stringOf (getProp v ''payer'')))
        then Inl InvalidPayerAddress
      else if \<not> isAddress (stringOf (getProp v ''token'')) then Inl InvalidTokenAddress
      else case parseAmountString num (getProp v ''amount'') ''invoice amount'' of
        Inl e \<Rightarrow> Inl e
      | Inr amountValue \<Rightarrow>
      if \<not> memoRegex (stringOf (getProp v ''memo'')) then Inl InvalidMemoFormat
      else if truthy (getProp v ''merchantReference'') \<and> \<not> isStringValue (getProp v ''merchantReference'')
        then Inl InvalidMerchantReference
      else if truthy (getProp v ''purpose'') \<and> \<not> isStringValue (getProp v ''purpose'')
        then Inl InvalidPurpose
      else case checkLineItemsField num (getProp v ''lineItems'') amountValue of
        Some e \<Rightarrow> Inl e
      | None \<Rightarrow>
      (case checkMetadataField (getProp v ''metadata'') of
        Some e \<Rightarrow> Inl e
      | None \<Rightarrow> Inr ()))"

subsection \<open>Line items at invoice creation (merchant/server.ts)\<close>

datatype 'a normalized = Absent | Invalid | Normalized 'a

definition isNonEmptyStringWithin :: "jsvalue option \<Rightarrow> nat \<Rightarrow> bool" where
  "isNonEmptyStringWithin v maxLength =
     (case v of Some (JString s) \<Rightarrow> length s > 0 \<and> length s \<le> maxLength | _ \<Rightarrow> False)"

definition isAmountStringValue :: "jsvalue option \<Rightarrow> bool" where
  \<comment> \<open>\<^verbatim>\<open>typeof value === 'string' && /^[0-9]+$/.test(value)\<close>\<close>
  "isAmountStringValue v = (case v of Some (JString s) \<Rightarrow> isAmountString s | _ \<Rightarrow> False)"

definition MAX_LINE_ITEMS :: nat where
  "MAX_LINE_ITEMS = 50"

definition normalizeLineItem :: "(rat \<Rightarrow> string) \<Rightarrow> jsvalue \<Rightarrow> InvoiceLineItemV1 option" where
  \<comment> \<open>the body of the loop of \<^verbatim>\<open>normalizeLineItems\<close>; \<open>None\<close> is \<^verbatim>\<open>return null\<close>\<close>
  "normalizeLineItem num rawItem =
     (if \<not> isObjectValue rawItem then None
      else if \<not> isNonEmptyStringWithin (getProp rawItem ''title'') 256 then None
      else if \<not> truthy (getProp rawItem ''totalAmount'')
                \<or> \<not> isAmountStringValue (getProp rawItem ''totalAmount'') then None
      else if getProp rawItem ''id'' \<noteq> None \<and> \<not> isNonEmptyStringWithin (getProp rawItem ''id'') 128
        then None
      else if getProp rawItem ''category'' \<noteq> None
                \<and> \<not> isNonEmptyStringWithin (getProp rawItem ''category'') 128 then None
      else if getProp rawItem ''unitAmount'' \<noteq> None
                \<and> \<not> isAmountStringValue (getProp rawItem ''unitAmount'') then None
      else if getProp rawItem ''quantity'' \<noteq> None
                \<and> (\<not> (isNumberValue (getProp rawItem ''quantity'')
                        \<and> isInteger (numberOf (getProp rawItem ''quantity'')))
                     \<or> numberOf (getProp rawItem ''quantity'') \<le> 0) then None
      else if truthy (getProp rawItem ''unitAmount'') \<and> truthy (getProp rawItem ''quantity'')
                \<and> (case (toBigInt num (getProp rawItem ''unitAmount''),
                            toBigInt num (getProp rawItem ''quantity''),
                            toBigInt num (getProp rawItem ''totalAmount'')) of
                       (Some u, Some q, Some t) \<Rightarrow> u * q \<noteq> t
                     | _ \<Rightarrow> True) then None
      else Some \<lparr>item_id = (if truthy (getProp rawItem ''id'')
                              then Some (stringOf (getProp rawItem ''id'')) else None),
                  title = stringOf (getProp rawItem ''title''),
                  category = (if truthy (getProp rawItem ''category'')
                              then Some (stringOf (getProp rawItem ''category'')) else None),
                  quantity = (if getProp rawItem ''quantity'' \<noteq> None
                              then Some \<lfloor>numberOf (getProp rawItem ''quantity'')\<rfloor> else None),
                  unitAmount = (if truthy (getProp rawItem ''unitAmount'')
                                then Some (stringOf (getProp rawItem ''unitAmount'')) else None),
                  totalAmount = stringOf (getProp rawItem ''totalAmount'')\<rparr>)"

fun normalizeItems :: "(rat \<Rightarrow> string) \<Rightarrow> jsvalue list \<Rightarrow> InvoiceLineItemV1 list option" where
  "normalizeItems num [] = Some []"
| "normalizeItems num (rawItem # rest) =
     (case normalizeLineItem num rawItem of
        None \<Rightarrow> None
      | Some item \<Rightarrow> map_option (\<lambda>items. item # items) (normalizeItems num rest))"

definition normalizeLineItems :: "(rat \<Rightarrow> string) \<Rightarrow> jsvalue option \<Rightarrow> InvoiceLineItemV1 list normalized" where
  "normalizeLineItems num v =
     (case v of
        None \<Rightarrow> Absent
      | Some (JArray rawItems) \<Rightarrow>
          if length rawItems > MAX_LINE_ITEMS then Invalid
          else (case normalizeItems num rawItems of None \<Rightarrow> Invalid | Some items \<Rightarrow> Normalized items)
      | Some _ \<Rightarrow> Invalid)"

section \<open>Delegation policy enforcement (agent.ts)\<close>

record DelegationPolicy =
  owner :: string
  maxAmount :: string
  allowedRecipients :: "string list"
  allowedTokens :: "string list"
  expiresAt :: int

datatype policy_violation =
    WrongChain int int
  | InvoiceExpired
  | DelegationPolicyExpired
  | PayerMismatch
  | BigIntThrows
  | OverPolicyBudget int int
  | RecipientNotAllowed
  | TokenNotAllowed

definition CHAIN_ID :: int where
  "CHAIN_ID = 42431"

definition validateInvoiceAgainstPolicy ::
  "int \<Rightarrow> InvoiceV1 \<Rightarrow> 'a DelegationPolicy_scheme \<Rightarrow> string \<Rightarrow> policy_violation + unit" where
  \<comment> \<open>\<open>now\<close> is \<^verbatim>\<open>Math.floor(Date.now() / 1000)\<close>; \<open>Inl\<close> is the error thrown\<close>
  "validateInvoiceAgainstPolicy now invoice policy payerAddress =
     (if chainId invoice \<noteq> CHAIN_ID then Inl (WrongChain CHAIN_ID (chainId invoice))
      else if dueAt invoice < now then Inl InvoiceExpired
      else if expiresAt policy < now then Inl DelegationPolicyExpired
      else if (case payer invoice of
                 None \<Rightarrow> False
               | Some p \<Rightarrow> p \<noteq> [] \<and> toLowerCase p \<noteq> toLowerCase payerAddress)
        then Inl PayerMismatch
      else case BigInt (amount invoice) of
        None \<Rightarrow> Inl BigIntThrows
      | Some amountValue \<Rightarrow>
      (case BigInt (maxAmount policy) of
        None \<Rightarrow> Inl BigIntThrows
      | Some maxAmountValue \<Rightarrow>
      if amountValue > maxAmountValue then Inl (OverPolicyBudget amountValue maxAmountValue)
      else if length (allowedRecipients policy) > 0
                \<and> \<not> list_ex (\<lambda>r. toLowerCase r = toLowerCase (recipient invoice))
                       (allowedRecipients policy)
        then Inl RecipientNotAllowed
      else if length (allowedTokens policy) > 0
                \<and> \<not> list_ex (\<lambda>t. toLowerCase t = toLowerCase (token invoice))
                       (allowedTokens policy)
        then Inl TokenNotAllowed
      else Inr ()))"

definition payerSet :: "InvoiceV1 \<Rightarrow> bool" where
  \<comment> \<open>an invoice has a payer when the field is present and not the empty text
      (\<^verbatim>\<open>invoice.payer\<close> is truthy)\<close>
  "payerSet invoice = (case payer invoice of None \<Rightarrow> False | Some p \<Rightarrow> p \<noteq> [])"

definition enforcement_checks ::
  "int \<Rightarrow> InvoiceV1 \<Rightarrow> 'a DelegationPolicy_scheme \<Rightarrow> string \<Rightarrow> (bool \<times> policy_violation) list" where
  \<comment> \<open>the seven checks of the specification, in its order, each with the reason
      reported when it fails; amounts are the integers the digit strings denote\<close>
  "enforcement_checks now invoice policy payerAddress =
     [(chainId invoice = CHAIN_ID, WrongChain CHAIN_ID (chainId invoice)),
      (dueAt invoice \<ge> now, InvoiceExpired),
      (expiresAt policy \<ge> now, DelegationPolicyExpired),
      (\<not> payerSet invoice \<or> map_option toLowerCase (payer invoice) = Some (toLowerCase payerAddress),
         PayerMismatch),
      (decimalValue (amount invoice) \<le> decimalValue (maxAmount policy),
         OverPolicyBudget (decimalValue (amount invoice)) (decimalValue (maxAmount policy))),
      (allowedRecipients policy = []
         \<or> toLowerCase (recipient invoice) \<in> set (map toLowerCase (allowedRecipients policy)),
         RecipientNotAllowed),
      (allowedTokens policy = []
         \<or> toLowerCase (token invoice) \<in> set (map toLowerCase (allowedTokens policy)),
         TokenNotAllowed)]"

definition enforce_spec ::
  "int \<Rightarrow> InvoiceV1 \<Rightarrow> 'a DelegationPolicy_scheme \<Rightarrow> string \<Rightarrow> policy_violation + unit" where
  \<comment> \<open>the specification's \<open>enforce\<close>: the reason of the earliest failing check\<close>
  "enforce_spec now invoice policy payerAddress =
     (case find (\<lambda>c. \<not> fst c) (enforcement_checks now invoice policy payerAddress) of
        None \<Rightarrow> Inr ()
      | Some c \<Rightarrow> Inl (snd c))"

section \<open>Settlement matcher (sdk/merchant.ts)\<close>

text \<open>
  \<^verbatim>\<open>parseEventLogs\<close> of viem decodes the \<^verbatim>\<open>TransferWithMemo\<close> events of the raw logs and
  keeps their order; the matcher is modelled on its result, the decoded events.
\<close>

record TransferWithMemoLog =
  log_address :: string
  args_from :: string
  args_to :: string
  args_amount :: int
  args_memo :: string

datatype js_error = SyntaxError

definition matchSettlement ::
  "InvoiceV1 \<Rightarrow> TransferWithMemoLog list \<Rightarrow> js_error + TransferWithMemoLog option" where
  \<comment> \<open>\<open>Inr None\<close> is \<^verbatim>\<open>undefined\<close>, the answer of \<^verbatim>\<open>find\<close> when no event matches\<close>
  "matchSettlement invoice transferLogs =
     (case BigInt (amount invoice) of
        None \<Rightarrow> Inl SyntaxError
      | Some expectedAmount \<Rightarrow>
          Inr (find (\<lambda>eventLog.
                 toLowerCase (log_address eventLog) = toLowerCase (token invoice)
                 \<and> toLowerCase (args_to eventLog) = toLowerCase (recipient invoice)
                 \<and> args_amount eventLog = expectedAmount
                 \<and> toLowerCase (args_memo eventLog) = toLowerCase (memo invoice)
                 \<and> (case payer invoice of
                        None \<Rightarrow> True
                      | Some p \<Rightarrow> p = [] \<or> toLowerCase (args_from eventLog) = toLowerCase p))
               transferLogs))"

definition event_satisfies_invoice :: "InvoiceV1 \<Rightarrow> TransferWithMemoLog \<Rightarrow> bool" where
  \<comment> \<open>the specification's matching condition\<close>
  "event_satisfies_invoice invoice e =
     (toLowerCase (log_address e) = toLowerCase (token invoice)
      \<and> toLowerCase (args_to e) = toLowerCase (recipient invoice)
      \<and> args_amount e = decimalValue (amount invoice)
      \<and> toLowerCase (args_memo e) = toLowerCase (memo invoice)
      \<and> (if payerSet invoice
           then map_option toLowerCase (payer invoice) = Some (toLowerCase (args_from e))
           else True))"

section \<open>Rate limiter (shared/rateLimit.ts)\<close>

text \<open>
  \<^verbatim>\<open>InMemoryRateLimiter\<close>: a fixed-window counter per key. Times are integer
  milliseconds, counts are integers; the \<^verbatim>\<open>Map\<close> of windows is a partial map.
  \<^verbatim>\<open>check\<close> mutates the map, so the model returns the limiter updated.
\<close>

record RateLimitResult =
  allowed :: bool
  retryAfterSeconds :: int

record WindowState =
  count :: int
  resetAt :: int

record InMemoryRateLimiter =
  maxRequests :: int
  windowMs :: int
  windows :: "string \<rightharpoonup> WindowState"

definition ceil_div_1000 :: "int \<Rightarrow> int" where
  \<comment> \<open>\<^verbatim>\<open>Math.ceil(x / 1000)\<close> on an integer \<open>x\<close>\<close>
  "ceil_div_1000 x = - ((- x) div 1000)"

definition check :: "InMemoryRateLimiter \<Rightarrow> string \<Rightarrow> int \<Rightarrow> RateLimitResult \<times> InMemoryRateLimiter" where
  "check l key now =
     (case windows l key of
        None \<Rightarrow>
          (\<lparr>allowed = True, retryAfterSeconds = 0\<rparr>,
           l\<lparr>windows := (windows l)(key \<mapsto> \<lparr>count = 1, resetAt = now + windowMs l\<rparr>)\<rparr>)
      | Some existing \<Rightarrow>
          if now \<ge> resetAt existing then
            (\<lparr>allowed = True, retryAfterSeconds = 0\<rparr>,
             l\<lparr>windows := (windows l)(key \<mapsto> \<lparr>count = 1, resetAt = now + windowMs l\<rparr>)\<rparr>)
          else if count existing \<ge> maxRequests l then
            (\<lparr>allowed = False,
              retryAfterSeconds = ceil_div_1000 (max (resetAt existing - now) 0)\<rparr>, l)
          else
            (\<lparr>allowed = True, retryAfterSeconds = 0\<rparr>,
             l\<lparr>windows := (windows l)(key \<mapsto> existing\<lparr>count := count existing + 1\<rparr>)\<rparr>))"

definition window_elapsed :: "InMemoryRateLimiter \<Rightarrow> string \<Rightarrow> int \<Rightarrow> bool" where
  \<comment> \<open>the first branch of \<^verbatim>\<open>check\<close>: \<^verbatim>\<open>!existing || now >= existing.resetAt\<close>\<close>
  "window_elapsed l key now =
     (case windows l key of None \<Rightarrow> True | Some existing \<Rightarrow> now \<ge> resetAt existing)"

section \<open>Merchant server (merchant/server.ts)\<close>

datatype OrderStatus = pending | confirmed

record Order =
  status :: OrderStatus
  listingId :: "string option"
  invoice :: InvoiceV1
  txHash :: "string option"
  confirmedAt :: "int option"

record IdempotencyRecord =
  requestHash :: string
  idem_invoiceId :: string
  createdAt :: int

record merchant_state =
  orders :: "string \<rightharpoonup> Order"
  invoicesByIdempotencyKey :: "string \<rightharpoonup> IdempotencyRecord"
  invoiceRateLimiter :: InMemoryRateLimiter
  settlementRateLimiter :: InMemoryRateLimiter

datatype error_details = NoDetails | ExistingTxHash string | RetryAfter int

datatype response =
    ErrorResponse nat string error_details
  | ConfirmResponse string string bool
  | InvoiceResponse InvoiceV1 bool

text \<open>
  \<open>ErrorResponse status code details\<close> is \<^verbatim>\<open>errorResponse(c, status, code, ...)\<close>;
  \<open>ConfirmResponse invoiceId txHash idempotentReplay\<close> is the answer
  \<^verbatim>\<open>{ ok: true, status: 'confirmed', invoiceId, txHash, idempotentReplay }\<close>;
  \<open>InvoiceResponse invoice idempotentReplay\<close> is
  \<^verbatim>\<open>{ ok: true, standard, invoice, idempotentReplay }\<close>.
\<close>

subsection \<open>Settlement confirmation\<close>

datatype receipt_status = success | reverted

record TransactionReceipt =
  receipt_status :: receipt_status
  receipt_logs :: "TransferWithMemoLog list"

record ledger_env =
  getTransactionReceipt :: "string \<Rightarrow> TransactionReceipt option"
  persistThrows :: bool
  nowSeconds :: int
  nowMs :: int

text \<open>
  The world outside a handler: \<open>getTransactionReceipt\<close> is the ledger client (\<open>None\<close>
  when the call throws), \<open>persistThrows\<close> says whether writing the state file fails,
  \<open>nowSeconds\<close> is \<^verbatim>\<open>Math.floor(Date.now() / 1000)\<close> and \<open>nowMs\<close> is \<^verbatim>\<open>Date.now()\<close>.
\<close>

record ConfirmBody =
  body_invoiceId :: "string option"
  body_orderId :: "string option"
  body_txHash :: "string option"

definition confirmSettlement ::
  "ledger_env \<Rightarrow> merchant_state \<Rightarrow> ConfirmBody \<Rightarrow> response \<times> merchant_state" where
  "confirmSettlement env st body =
     (let requested = (case body_invoiceId body of Some i \<Rightarrow> Some i | None \<Rightarrow> body_orderId body) in
      case (requested, body_txHash body) of
        (Some requestedId, Some bodyTxHash) \<Rightarrow>
          if requestedId = [] \<or> bodyTxHash = []
          then (ErrorResponse 400 ''MISSING_CONFIRMATION_FIELDS'' NoDetails, st)
          else
          (case orders st requestedId of
             None \<Rightarrow> (ErrorResponse 404 ''INVOICE_NOT_FOUND'' NoDetails, st)
           | Some order \<Rightarrow>
               if status order = confirmed then
                 (if txHash order = Some bodyTxHash
                  then (ConfirmResponse requestedId bodyTxHash True, st)
                  else (ErrorResponse 409 ''INVOICE_ALREADY_CONFIRMED''
                          (ExistingTxHash (case txHash order of Some h \<Rightarrow> h | None \<Rightarrow> ''unknown'')),
                        st))
               else
               (case getTransactionReceipt env bodyTxHash of
                  None \<Rightarrow> (ErrorResponse 400 ''TRANSACTION_NOT_FOUND_OR_INVALID'' NoDetails, st)
                | Some receipt \<Rightarrow>
                    if receipt_status receipt \<noteq> success
                    then (ErrorResponse 400 ''TRANSACTION_FAILED'' NoDetails, st)
                    else
                    (case matchSettlement (invoice order) (receipt_logs receipt) of
                       Inl e \<Rightarrow> (ErrorResponse 400 ''TRANSACTION_NOT_FOUND_OR_INVALID'' NoDetails, st)
                     | Inr None \<Rightarrow> (ErrorResponse 400 ''SETTLEMENT_MISMATCH'' NoDetails, st)
                     | Inr (Some match) \<Rightarrow>
                         (let st' = st\<lparr>orders := (orders st)(requestedId \<mapsto>
                                      order\<lparr>status := confirmed, txHash := Some bodyTxHash,
                                            confirmedAt := Some (nowSeconds env)\<rparr>)\<rparr>
                          in if persistThrows env
                             then (ErrorResponse 400 ''TRANSACTION_NOT_FOUND_OR_INVALID'' NoDetails, st')
                             else (ConfirmResponse (InvoiceV1.invoiceId (invoice order)) bodyTxHash False,
                                   st')))))
      | _ \<Rightarrow> (ErrorResponse 400 ''MISSING_CONFIRMATION_FIELDS'' NoDetails, st))"

definition requireSettlementAuthOrError :: "string option \<Rightarrow> string option \<Rightarrow> response option" where
  \<comment> \<open>the first argument is \<^verbatim>\<open>MERCHANT_CONFIRM_TOKEN\<close>, the second the request header
      \<^verbatim>\<open>x-merchant-confirm-token\<close>; \<open>None\<close> lets the request through\<close>
  "requireSettlementAuthOrError MERCHANT_CONFIRM_TOKEN provided =
     (if MERCHANT_CONFIRM_TOKEN = None \<or> MERCHANT_CONFIRM_TOKEN = Some [] then None
      else if provided = MERCHANT_CONFIRM_TOKEN then None
      else Some (ErrorResponse 401 ''UNAUTHORIZED_SETTLEMENT_CONFIRM'' NoDetails))"

record confirm_request =
  confirm_clientIp :: string
  confirm_token_header :: "string option"
  confirm_body :: "ConfirmBody option"

text \<open>
  A request to \<^verbatim>\<open>POST /api/confirm\<close>: the client address \<^verbatim>\<open>getClientIp\<close> reads, the
  credential header, and the JSON body (\<open>None\<close> when it does not parse).
\<close>

definition app_post_confirm ::
  "string option \<Rightarrow> ledger_env \<Rightarrow> merchant_state \<Rightarrow> confirm_request \<Rightarrow> response \<times> merchant_state" where
  "app_post_confirm MERCHANT_CONFIRM_TOKEN env st req =
     (let (result, limiter) = check (settlementRateLimiter st)
                                (''confirm-settlement:'' @ confirm_clientIp req) (nowMs env);
          st1 = st\<lparr>settlementRateLimiter := limiter\<rparr>
      in if \<not> allowed result
         then (ErrorResponse 429 ''RATE_LIMITED'' (RetryAfter (retryAfterSeconds result)), st1)
         else
         (case requireSettlementAuthOrError MERCHANT_CONFIRM_TOKEN (confirm_token_header req) of
            Some authError \<Rightarrow> (authError, st1)
          | None \<Rightarrow>
              (case confirm_body req of
                 None \<Rightarrow> (ErrorResponse 400 ''BAD_JSON'' NoDetails, st1)
               | Some body \<Rightarrow> confirmSettlement env st1 body)))"

subsection \<open>Invoice creation and idempotency\<close>





























section \<open>Guardian (guardian/server.ts)\<close>

record GuardianPolicy = DelegationPolicy +
  updatedAt :: int

record guardian_state =
  policies :: "string \<rightharpoonup> GuardianPolicy"
  writeRateLimiter :: InMemoryRateLimiter

record guardian_config =
  adminToken :: "string option"
  MAX_POLICY_AMOUNT :: int

definition MAX_POLICY_LIST_ENTRIES :: nat where
  "MAX_POLICY_LIST_ENTRIES = 50"

definition MAX_POLICY_DURATION_SECONDS :: int where
  "MAX_POLICY_DURATION_SECONDS = 365 * 24 * 60 * 60"

datatype guardian_response =
    GuardianError nat string
  | RateLimited int
  | PolicyJson GuardianPolicy

definition normalizeAddress :: "string \<Rightarrow> string option" where
  "normalizeAddress v = (if \<not> isAddress v then None else Some (toLowerCase v))"

definition get_delegation :: "guardian_state \<Rightarrow> string \<Rightarrow> guardian_response" where
  \<comment> \<open>\<^verbatim>\<open>app.get('/api/delegations/:owner')\<close>\<close>
  "get_delegation st ownerParam =
     (case normalizeAddress ownerParam of
        None \<Rightarrow> GuardianError 400 ''Invalid owner address''
      | Some ownerKey \<Rightarrow>
          (case policies st ownerKey of
             None \<Rightarrow> GuardianError 404 ''Policy not found''
           | Some policy \<Rightarrow> PolicyJson policy))"

datatype address_array = Undefined | NotAnArray | ArrayOf "string list"

record policy_body =
  body_owner :: string
  body_maxAmount :: string
  body_allowedRecipients :: address_array
  body_allowedTokens :: address_array
  body_expiresAt :: "rat option"

datatype policy_request_body = BadJson | PolicyBody policy_body

text \<open>
  The body of a policy write after the coercions of the handler: \<open>body_owner\<close> is
  \<^verbatim>\<open>String(body.owner)\<close>, \<open>body_maxAmount\<close> is \<^verbatim>\<open>String(body.maxAmount)\<close>, an address list
  is absent, not an array, or an array whose entries are read through \<^verbatim>\<open>String(entry)\<close>,
  and \<open>body_expiresAt\<close> is \<^verbatim>\<open>Number(body.expiresAt)\<close> (\<open>None\<close> for NaN).
\<close>

fun dedupeNormalized :: "string list \<Rightarrow> string list \<Rightarrow> string list option" where
  \<comment> \<open>the loop that fills the \<^verbatim>\<open>Set\<close>; a set keeps the order of first insertion\<close>
  "dedupeNormalized deduped [] = Some deduped"
| "dedupeNormalized deduped (entry # rest) =
     (case normalizeAddress entry of
        None \<Rightarrow> None
      | Some normalized \<Rightarrow>
          dedupeNormalized (if normalized \<in> set deduped then deduped else deduped @ [normalized]) rest)"

definition parseAddressArray :: "address_array \<Rightarrow> string + string list" where
  "parseAddressArray v =
     (case v of
        Undefined \<Rightarrow> Inr []
      | NotAnArray \<Rightarrow> Inl ''must be an array''
      | ArrayOf entries \<Rightarrow>
          if length entries > MAX_POLICY_LIST_ENTRIES then Inl ''allows at most 50 entries''
          else (case dedupeNormalized [] entries of
                  None \<Rightarrow> Inl ''contains invalid address''
                | Some deduped \<Rightarrow> Inr deduped))"

record policy_request =
  policy_clientIp :: string
  policy_admin_header :: "string option"
  policy_request_body :: policy_request_body

definition post_delegation ::
  "guardian_config \<Rightarrow> int \<Rightarrow> int \<Rightarrow> guardian_state \<Rightarrow> policy_request
     \<Rightarrow> guardian_response \<times> guardian_state" where
  \<comment> \<open>\<^verbatim>\<open>app.post('/api/delegations')\<close>; \<open>nowMillis\<close> is \<^verbatim>\<open>Date.now()\<close> and \<open>now\<close> is
      \<^verbatim>\<open>Math.floor(Date.now() / 1000)\<close>\<close>
  "post_delegation cfg nowMillis now st req =
     (let (result, limiter) = check (writeRateLimiter st)
                                (''write-policy:'' @ policy_clientIp req) nowMillis;
          st1 = st\<lparr>writeRateLimiter := limiter\<rparr>
      in if \<not> allowed result then (RateLimited (retryAfterSeconds result), st1)
         else if adminToken cfg = None \<or> adminToken cfg = Some []
           then (GuardianError 500 ''Guardian misconfigured: missing DELEGATION_ADMIN_TOKEN'', st1)
         else if policy_admin_header req \<noteq> adminToken cfg
           then (GuardianError 401 ''Unauthorized'', st1)
         else
         (case policy_request_body req of
            BadJson \<Rightarrow> (GuardianError 400 ''Request body must be valid JSON'', st1)
          | PolicyBody body \<Rightarrow>
              (let ownerKey = normalizeAddress (body_owner body);
                   maxAmountText = body_maxAmount body
               in if \<not> isAmountString maxAmountText
                       \<or> (case BigInt maxAmountText of None \<Rightarrow> True | Some m \<Rightarrow> m \<le> 0)
                  then (GuardianError 400 ''maxAmount must be a positive numeric string'', st1)
                  else if (case BigInt maxAmountText of None \<Rightarrow> True | Some m \<Rightarrow> m > MAX_POLICY_AMOUNT cfg)
                  then (GuardianError 400 ''maxAmount exceeds guardian limit'', st1)
                  else
                  (case parseAddressArray (body_allowedRecipients body) of
                     Inl message \<Rightarrow> (GuardianError 400 (''allowedRecipients '' @ message), st1)
                   | Inr recipients \<Rightarrow>
                  (case parseAddressArray (body_allowedTokens body) of
                     Inl message \<Rightarrow> (GuardianError 400 (''allowedTokens '' @ message), st1)
                   | Inr tokens \<Rightarrow>
                  (case (ownerKey, body_expiresAt body) of
                     (Some ownerAddress, Some expiry) \<Rightarrow>
                       if \<not> isInteger expiry \<or> expiry \<le> of_int now
                       then (GuardianError 400 ''Missing required fields'', st1)
                       else if expiry > of_int (now + MAX_POLICY_DURATION_SECONDS)
                       then (GuardianError 400 ''expiresAt must be within 31536000 seconds from now'', st1)
                       else
                       (let policy = \<lparr>owner = ownerAddress, maxAmount = maxAmountText,
                                       allowedRecipients = recipients, allowedTokens = tokens,
                                       expiresAt = \<lfloor>expiry\<rfloor>, updatedAt = now\<rparr>
                        in (PolicyJson policy,
                            st1\<lparr>policies := (policies st1)(ownerAddress \<mapsto> policy)\<rparr>))
                   | _ \<Rightarrow> (GuardianError 400 ''Missing required fields'', st1)))))))"

section \<open>Sample data\<close>

definition sample_invoice :: InvoiceV1 where
  "sample_invoice =
     \<lparr>version = ''tempo.invoice.v1'', invoiceId = ''INV-1'', issuedAt = 1700000000,
      dueAt = 1700000600, chainId = 42431,
      merchant = ''0x300a2017f8232dea84ca60b01aaa83df35a692c3'',
      recipient = ''0x300a2017f8232dea84ca60b01aaa83df35a692c3'',
      payer = None,
      token = ''0x20c0000000000000000000000000000000000001'',
      amount = ''285000000'',
      memo = ''0x000000000000000000000000000000000000000000000000000000494e562d31'',
      description = ''Test settlement match'', merchantReference = None, purpose = None,
      lineItems = None, metadata = None, merchantSig = ''0x00''\<rparr>"

definition sample_log :: TransferWithMemoLog where
  "sample_log =
     \<lparr>log_address = ''0x20C0000000000000000000000000000000000001'',
      args_from = ''0x1111111111111111111111111111111111111111'',
      args_to = ''0x300A2017F8232DEA84CA60B01AAA83DF35A692C3'',
      args_amount = 285000000,
      args_memo = ''0x000000000000000000000000000000000000000000000000000000494E562D31''\<rparr>"

definition sample_policy :: DelegationPolicy where
  "sample_policy =
     \<lparr>owner = ''0x1111111111111111111111111111111111111111'', maxAmount = ''300000000'',
      allowedRecipients = [''0x300A2017F8232DEA84CA60B01AAA83DF35A692C3''],
      allowedTokens = [], expiresAt = 1800000000\<rparr>"

definition sample_limiter :: InMemoryRateLimiter where
  "sample_limiter = \<lparr>maxRequests = 30, windowMs = 60000, windows = Map.empty\<rparr>"

definition sample_state :: merchant_state where
  "sample_state =
     \<lparr>orders = Map.empty(''INV-1'' \<mapsto>
        \<lparr>status = pending, listingId = None, invoice = sample_invoice, txHash = None,
         confirmedAt = None\<rparr>),
      invoicesByIdempotencyKey = Map.empty,
      invoiceRateLimiter = sample_limiter,
      settlementRateLimiter = sample_limiter\<rparr>"

definition sample_txHash :: string where
  "sample_txHash = ''0xaaaaaaaaaaaaaaaaaaaaaaaaaaaaaaaaaaaaaaaaaaaaaaaaaaaaaaaaaaaaaaaa''"


definition sample_env :: ledger_env where
  "sample_env =
     \<lparr>getTransactionReceipt =
        (\<lambda>h. if h = sample_txHash
             then Some \<lparr>receipt_status = success, receipt_logs = [sample_log]\<rparr> else None),
      persistThrows = False, nowSeconds = 1700000100, nowMs = 1700000100000\<rparr>"

definition sample_confirm_body :: ConfirmBody where
  "sample_confirm_body =
     \<lparr>body_invoiceId = Some ''INV-1'', body_orderId = None, body_txHash = Some sample_txHash\<rparr>"

definition sample_confirmed_state :: merchant_state where
  "sample_confirmed_state =
     sample_state\<lparr>orders := (orders sample_state)(''INV-1'' \<mapsto>
        \<lparr>status = confirmed, listingId = None, invoice = sample_invoice,
         txHash = Some sample_txHash, confirmedAt = Some 1700000100\<rparr>)\<rparr>"

definition sample_guardian_config :: guardian_config where
  "sample_guardian_config = \<lparr>adminToken = Some ''admin-token'', MAX_POLICY_AMOUNT = 1000000000000\<rparr>"

definition empty_guardian_state :: guardian_state where
  "empty_guardian_state = \<lparr>policies = Map.empty, writeRateLimiter = sample_limiter\<rparr>"

definition sample_policy_request :: policy_request where
  "sample_policy_request =
     \<lparr>policy_clientIp = ''203.0.113.9'', policy_admin_header = Some ''admin-token'',
      policy_request_body = PolicyBody
        \<lparr>body_owner = ''0xaa00000000000000000000000000000000000000'',
         body_maxAmount = ''200000000'',
         body_allowedRecipients = ArrayOf [''0x300a2017f8232dea84ca60b01aaa83df35a692c3'',
                                           ''0x300a2017f8232dea84ca60b01aaa83df35a692c3''],
         body_allowedTokens = Undefined,
         body_expiresAt = Some 1700003600\<rparr>\<rparr>"

definition sample_written_policy :: GuardianPolicy where
  "sample_written_policy =
     \<lparr>owner = ''0xaa00000000000000000000000000000000000000'', maxAmount = ''200000000'',
      allowedRecipients = [''0x300a2017f8232dea84ca60b01aaa83df35a692c3''],
      allowedTokens = [], expiresAt = 1700003600, updatedAt = 1700000000\<rparr>"

definition sample_guardian_state :: guardian_state where
  \<comment> \<open>the guardian after the sample write\<close>
  "sample_guardian_state =
     snd (post_delegation sample_guardian_config 1700000000000 1700000000 empty_guardian_state
            sample_policy_request)"

definition sample_candidate :: jsvalue where
  \<comment> \<open>an invoice whose only line item has 3 units of 2 and a total of 5\<close>
  "sample_candidate =
     JObject
      [(''version'', JString ''tempo.invoice.v1''),
       (''invoiceId'', JString ''INV-1''),
       (''issuedAt'', JNumber 1700000000),
       (''dueAt'', JNumber 1700000600),
       (''chainId'', JNumber 42431),
       (''merchant'', JString ''0x300a2017f8232dea84ca60b01aaa83df35a692c3''),
       (''recipient'', JString ''0x300a2017f8232dea84ca60b01aaa83df35a692c3''),
       (''token'', JString ''0x20c0000000000000000000000000000000000001''),
       (''amount'', JString ''5''),
       (''memo'', JString ''0x000000000000000000000000000000000000000000000000000000494e562d31''),
       (''description'', JString ''Three units''),
       (''lineItems'',
          JArray [JObject [(''title'', JString ''Unit''), (''quantity'', JNumber 3),
                           (''unitAmount'', JString ''2''), (''totalAmount'', JString ''5'')]]),
       (''merchantSig'', JString ''0x00'')]"

definition consistentOn :: "(string \<Rightarrow> string \<Rightarrow> int) \<Rightarrow> string list \<Rightarrow> bool" where
  \<comment> \<open>the comparator is consistent on these keys: swapping the arguments swaps the
      sign, and the order it gives is transitive\<close>
  "consistentOn cmp ks =
     ((\<forall>a \<in> set ks. \<forall>b \<in> set ks. (cmp a b < 0) = (cmp b a > 0))
      \<and> (\<forall>a \<in> set ks. \<forall>b \<in> set ks. \<forall>c \<in> set ks.
            cmp a b \<le> 0 \<and> cmp b c \<le> 0 \<longrightarrow> cmp a c \<le> 0))"

definition distinguishes :: "(string \<Rightarrow> string \<Rightarrow> int) \<Rightarrow> string list \<Rightarrow> bool" where
  \<comment> \<open>the comparator tells any two different keys apart\<close>
  "distinguishes cmp ks = (\<forall>a \<in> set ks. \<forall>b \<in> set ks. a \<noteq> b \<longrightarrow> cmp a b \<noteq> 0)"

fun decimalText :: "nat \<Rightarrow> string" where
  \<comment> \<open>the text of a natural number in decimal, as \<^verbatim>\<open>JSON.stringify\<close> prints the
      integers that the invoices carry\<close>
  "decimalText n =
     (if n < 10 then [hexDigitChar n] else decimalText (n div 10) @ [hexDigitChar (n mod 10)])"

declare decimalText.simps [simp del]

definition sample_object :: "(string \<times> nat json) list" where
  "sample_object = [(''B'', JNumber 20), (''a'', JNumber 7)]"




definition sample_issued_invoice :: InvoiceV1 where
  "sample_issued_invoice =
     \<lparr>version = ''tempo.invoice.v1'', invoiceId = ''INV-1700000000000-000042'',
      issuedAt = 1700000000, dueAt = 1700000600, chainId = 42431,
      merchant = ''0x300a2017f8232dea84ca60b01aaa83df35a692c3'',
      recipient = ''0x300a2017f8232dea84ca60b01aaa83df35a692c3'',
      payer = None,
      token = ''0x20c0000000000000000000000000000000000001'',
      amount = ''285000000'',
      memo = ''0x0000000000000000494e562d313730303030303030303030302d303030303432'',
      description = ''Test settlement match'', merchantReference = None, purpose = None,
      lineItems = None, metadata = None, merchantSig = ''0x00''\<rparr>"










section \<open>Theorems\<close>

subsection \<open>Strings and amounts\<close>

lemma lowerChar_idem: "lowerChar (lowerChar c) = lowerChar c"
proof (cases "map_of (zip upperChars lowerChars) c")
  case None
  then show ?thesis by (simp add: lowerChar_def)
next
  case (Some d)
  then have "(c, d) \<in> set (zip upperChars lowerChars)"
    by (rule map_of_SomeD)
  moreover have "\<forall>p \<in> set (zip upperChars lowerChars).
      map_of (zip upperChars lowerChars) (snd p) = None"
    by (simp add: upperChars_def lowerChars_def)
  ultimately have "map_of (zip upperChars lowerChars) (snd (c, d)) = None"
    by blast
  then have "map_of (zip upperChars lowerChars) d = None"
    by simp
  with Some show ?thesis by (simp add: lowerChar_def)
qed

lemma toLowerCase_idem: "toLowerCase (toLowerCase s) = toLowerCase s"
  by (simp add: toLowerCase_def lowerChar_idem)

lemma isDigit_cases:
  assumes "isDigit c"
  obtains "c = CHR ''0''" | "c = CHR ''1''" | "c = CHR ''2''" | "c = CHR ''3''"
    | "c = CHR ''4''" | "c = CHR ''5''" | "c = CHR ''6''" | "c = CHR ''7''" | "c = CHR ''8''"
    | "c = CHR ''9''"
  using assms unfolding isDigit_def by auto

lemma digitValue_digit: "isDigit c \<Longrightarrow> \<exists>d<10. digitValue c = Some d"
  by (erule isDigit_cases) (simp_all add: digitValue_def)

lemma isDigit_not_space: "isDigit c \<Longrightarrow> \<not> isStrWhiteSpaceChar c"
  by (erule isDigit_cases) (simp_all add: isStrWhiteSpaceChar_def)

lemma isDigit_not_sign: "isDigit c \<Longrightarrow> c \<noteq> CHR ''+'' \<and> c \<noteq> CHR ''-'' \<and> c \<notin> set ''xXoObB''"
  by (erule isDigit_cases) simp_all

lemma parseDigits_decimal:
  "list_all isDigit s \<Longrightarrow>
   parseDigits 10 acc s =
     Some (foldl (\<lambda>acc c. acc * 10 + (case digitValue c of None \<Rightarrow> 0 | Some d \<Rightarrow> int d)) acc s)"
proof (induction s arbitrary: acc)
  case Nil
  then show ?case by simp
next
  case (Cons c cs)
  then obtain d where d: "d < 10" "digitValue c = Some d"
    using digitValue_digit by auto
  with Cons show ?case by simp
qed

lemma trimString_digits:
  assumes "isAmountString s"
  shows "trimString s = s"
proof -
  from assms obtain c cs where s: "s = c # cs" and c: "isDigit c"
    by (cases s) (auto simp: isAmountString_def)
  from assms have "rev s \<noteq> []" "list_all isDigit (rev s)"
    by (auto simp: isAmountString_def list_all_iff)
  then obtain d ds where r: "rev s = d # ds" and d: "isDigit d"
    by (cases "rev s") auto
  have "dropWhile isStrWhiteSpaceChar s = s"
    using s c by (simp add: isDigit_not_space)
  moreover have "dropWhile isStrWhiteSpaceChar (rev s) = rev s"
    using r d by (simp add: isDigit_not_space)
  ultimately show ?thesis by (simp add: trimString_def)
qed

lemma BigInt_amount_string:
  assumes "isAmountString s"
  shows "BigInt s = Some (decimalValue s)"
proof -
  from assms obtain c cs where s: "s = c # cs" and c: "isDigit c" and cs: "list_all isDigit cs"
    by (cases s) (auto simp: isAmountString_def)
  have t: "trimString s = s" using assms by (rule trimString_digits)
  have notprefix: "take 2 s \<noteq> [a, b]" if "b \<in> set ''xXoObB''" for a b
  proof (cases cs)
    case Nil
    then show ?thesis using s by simp
  next
    case (Cons e es)
    with cs have "isDigit e" by simp
    then have "e \<notin> set ''xXoObB''" using isDigit_not_sign by blast
    with that have "e \<noteq> b" by blast
    then show ?thesis using s Cons by simp
  qed
  have p: "parseNumeral 10 s = Some (decimalValue s)"
    using assms parseDigits_decimal [of s 0]
    by (simp add: parseNumeral_def decimalValue_def isAmountString_def)
  have sign: "c \<noteq> CHR ''+''" "c \<noteq> CHR ''-''"
    using c isDigit_not_sign by blast+
  have pre: "take 2 s \<noteq> ''0x''" "take 2 s \<noteq> ''0X''" "take 2 s \<noteq> ''0o''" "take 2 s \<noteq> ''0O''"
       "take 2 s \<noteq> ''0b''" "take 2 s \<noteq> ''0B''"
    by (rule notprefix, simp)+
  have ne: "s \<noteq> []" using s by simp
  have "BigInt s =
      (case s of c # r \<Rightarrow>
                if c = CHR ''+'' then parseNumeral 10 r
                else if c = CHR ''-'' then map_option uminus (parseNumeral 10 r)
                else parseNumeral 10 s
            | [] \<Rightarrow> Some 0)"
    unfolding BigInt_def t Let_def using pre ne by simp
  also have "\<dots> = parseNumeral 10 s"
    using sign by (simp add: s)
  finally show ?thesis using p by simp
qed

lemma lowerChar_hex:
  "lowerChar CHR ''0'' = CHR ''0''"
  "lowerChar CHR ''1'' = CHR ''1''"
  "lowerChar CHR ''2'' = CHR ''2''"
  "lowerChar CHR ''3'' = CHR ''3''"
  "lowerChar CHR ''4'' = CHR ''4''"
  "lowerChar CHR ''5'' = CHR ''5''"
  "lowerChar CHR ''6'' = CHR ''6''"
  "lowerChar CHR ''7'' = CHR ''7''"
  "lowerChar CHR ''8'' = CHR ''8''"
  "lowerChar CHR ''9'' = CHR ''9''"
  "lowerChar CHR ''a'' = CHR ''a''"
  "lowerChar CHR ''b'' = CHR ''b''"
  "lowerChar CHR ''c'' = CHR ''c''"
  "lowerChar CHR ''d'' = CHR ''d''"
  "lowerChar CHR ''e'' = CHR ''e''"
  "lowerChar CHR ''f'' = CHR ''f''"
  "lowerChar CHR ''A'' = CHR ''a''"
  "lowerChar CHR ''B'' = CHR ''b''"
  "lowerChar CHR ''C'' = CHR ''c''"
  "lowerChar CHR ''D'' = CHR ''d''"
  "lowerChar CHR ''E'' = CHR ''e''"
  "lowerChar CHR ''F'' = CHR ''f''"
  "lowerChar CHR ''x'' = CHR ''x''"
  by (simp_all add: lowerChar_def upperChars_def lowerChars_def)

lemmas string_eval = toLowerCase_def lowerChar_hex isAmountString_def isDigit_def

subsection \<open>Settlement matcher\<close>

lemma find_first_split:
  "find P xs = Some x \<Longrightarrow> \<exists>ys zs. xs = ys @ x # zs \<and> P x \<and> (\<forall>y \<in> set ys. \<not> P y)"
proof (induction xs)
  case Nil
  then show ?case by simp
next
  case (Cons a xs)
  show ?case
  proof (cases "P a")
    case True
    with Cons.prems have "a = x" by simp
    with True have "a # xs = [] @ x # xs \<and> P x \<and> (\<forall>y \<in> set []. \<not> P y)" by simp
    then show ?thesis by blast
  next
    case False
    with Cons.prems have "find P xs = Some x" by simp
    then obtain ys zs where "xs = ys @ x # zs" "P x" "\<forall>y \<in> set ys. \<not> P y"
      using Cons.IH by blast
    with False have "a # xs = (a # ys) @ x # zs \<and> P x \<and> (\<forall>y \<in> set (a # ys). \<not> P y)" by simp
    then show ?thesis by blast
  qed
qed

lemma matchSettlement_find:
  assumes "isAmountString (amount iv)"
  shows "matchSettlement iv logs = Inr (find (event_satisfies_invoice iv) logs)"
proof -
  have b: "BigInt (amount iv) = Some (decimalValue (amount iv))"
    using assms by (rule BigInt_amount_string)
  have "(\<lambda>eventLog.
           toLowerCase (log_address eventLog) = toLowerCase (token iv)
           \<and> toLowerCase (args_to eventLog) = toLowerCase (recipient iv)
           \<and> args_amount eventLog = decimalValue (amount iv)
           \<and> toLowerCase (args_memo eventLog) = toLowerCase (memo iv)
           \<and> (case payer iv of
                  None \<Rightarrow> True
                | Some p \<Rightarrow> p = [] \<or> toLowerCase (args_from eventLog) = toLowerCase p))
        = event_satisfies_invoice iv"
    by (rule ext) (auto simp: event_satisfies_invoice_def payerSet_def split: option.splits)
  then show ?thesis
    by (simp add: matchSettlement_def b)
qed

text \<open>
  Claim C1. For an invoice whose amount is a string of decimal digits, and any list of
  decoded transfer events: the matcher returns an event if and only if some event of the
  list satisfies the matching condition (token, recipient and memo equal without regard to
  case, the amount equal as an integer, and the sender equal to the payer when the invoice
  has one); the event returned is the first such event of the list; and when no event
  satisfies the condition the matcher returns no match, which is a value and not an error.
\<close>

theorem matchSettlement_first_match:
  assumes "isAmountString (amount iv)"
  shows "((\<exists>e. matchSettlement iv logs = Inr (Some e))
            \<longleftrightarrow> (\<exists>e \<in> set logs. event_satisfies_invoice iv e))
       \<and> (\<forall>e. matchSettlement iv logs = Inr (Some e) \<longrightarrow>
              (\<exists>before after. logs = before @ e # after \<and> event_satisfies_invoice iv e
                 \<and> (\<forall>x \<in> set before. \<not> event_satisfies_invoice iv x)))
       \<and> ((\<forall>e \<in> set logs. \<not> event_satisfies_invoice iv e)
            \<longleftrightarrow> matchSettlement iv logs = Inr None)"
proof -
  have m: "matchSettlement iv logs = Inr (find (event_satisfies_invoice iv) logs)"
    using assms by (rule matchSettlement_find)
  have 1: "(\<exists>e. matchSettlement iv logs = Inr (Some e))
            \<longleftrightarrow> (\<exists>e \<in> set logs. event_satisfies_invoice iv e)"
  proof (cases "find (event_satisfies_invoice iv) logs")
    case None
    then show ?thesis unfolding m by (simp add: find_None_iff)
  next
    case (Some x)
    then have "x \<in> set logs \<and> event_satisfies_invoice iv x"
      using find_first_split [of "event_satisfies_invoice iv" logs x] by auto
    with Some show ?thesis unfolding m by auto
  qed
  have 2: "\<forall>e. matchSettlement iv logs = Inr (Some e) \<longrightarrow>
              (\<exists>before after. logs = before @ e # after \<and> event_satisfies_invoice iv e
                 \<and> (\<forall>x \<in> set before. \<not> event_satisfies_invoice iv x))"
    unfolding m using find_first_split [of "event_satisfies_invoice iv" logs] by simp
  have 3: "(\<forall>e \<in> set logs. \<not> event_satisfies_invoice iv e)
            \<longleftrightarrow> matchSettlement iv logs = Inr None"
    unfolding m by (auto simp: find_None_iff)
  from 1 2 3 show ?thesis by blast
qed

lemma sample_log_satisfies: "event_satisfies_invoice sample_invoice sample_log"
  by (simp add: event_satisfies_invoice_def sample_invoice_def sample_log_def payerSet_def
      decimalValue_def digitValue_def string_eval)

theorem matchSettlement_first_match_witness:
  "isAmountString (amount sample_invoice)
   \<and> \<not> event_satisfies_invoice sample_invoice (sample_log\<lparr>args_amount := 285000001\<rparr>)
   \<and> matchSettlement sample_invoice [sample_log\<lparr>args_amount := 285000001\<rparr>, sample_log]
       = Inr (Some sample_log)"
proof -
  have h: "isAmountString (amount sample_invoice)"
    by (simp add: sample_invoice_def isAmountString_def isDigit_def)
  have n: "\<not> event_satisfies_invoice sample_invoice (sample_log\<lparr>args_amount := 285000001\<rparr>)"
    by (simp add: event_satisfies_invoice_def sample_invoice_def sample_log_def
        decimalValue_def digitValue_def)
  from matchSettlement_first_match [OF h, of "[sample_log\<lparr>args_amount := 285000001\<rparr>, sample_log]"]
    sample_log_satisfies
  obtain e where e: "matchSettlement sample_invoice [sample_log\<lparr>args_amount := 285000001\<rparr>, sample_log]
       = Inr (Some e)"
    by auto
  with matchSettlement_first_match [OF h, of "[sample_log\<lparr>args_amount := 285000001\<rparr>, sample_log]"]
  obtain before after where s: "[sample_log\<lparr>args_amount := 285000001\<rparr>, sample_log] = before @ e # after"
    "event_satisfies_invoice sample_invoice e"
    by blast
  from s n have "e = sample_log"
    by (cases before; cases "tl before") auto
  with e h n show ?thesis by simp
qed

subsection \<open>Policy enforcement\<close>

lemma list_ex_lower:
  "list_ex (\<lambda>r. toLowerCase r = toLowerCase x) xs \<longleftrightarrow> toLowerCase x \<in> set (map toLowerCase xs)"
  by (induction xs) auto

lemma validate_eq_spec:
  assumes "isAmountString (amount iv)" and "isAmountString (maxAmount policy)"
  shows "validateInvoiceAgainstPolicy now iv policy p = enforce_spec now iv policy p"
proof -
  have a: "BigInt (amount iv) = Some (decimalValue (amount iv))"
    using assms(1) by (rule BigInt_amount_string)
  have m: "BigInt (maxAmount policy) = Some (decimalValue (maxAmount policy))"
    using assms(2) by (rule BigInt_amount_string)
  show ?thesis
    unfolding validateInvoiceAgainstPolicy_def enforce_spec_def enforcement_checks_def a m
    by (auto simp: payerSet_def list_ex_lower split: option.splits)
qed


text \<open>
  Claim C4. For an invoice and a policy whose amounts are strings of decimal digits,
  policy enforcement answers exactly as the seven checks of the specification taken in
  order: it succeeds if and only if all seven hold, and when it fails the reason is that
  of the earliest failing check. An empty list of allowed recipients (or tokens) lets
  any recipient (or token) through.
\<close>

theorem validateInvoiceAgainstPolicy_enforces_in_order:
  assumes "isAmountString (amount iv)" and "isAmountString (maxAmount policy)"
  shows "validateInvoiceAgainstPolicy now iv policy p = enforce_spec now iv policy p
       \<and> (validateInvoiceAgainstPolicy now iv policy p = Inr ()
            \<longleftrightarrow> list_all fst (enforcement_checks now iv policy p))
       \<and> (allowedRecipients policy = [] \<longrightarrow>
            validateInvoiceAgainstPolicy now (iv\<lparr>recipient := r\<rparr>) policy p
              = validateInvoiceAgainstPolicy now iv policy p)
       \<and> (allowedTokens policy = [] \<longrightarrow>
            validateInvoiceAgainstPolicy now (iv\<lparr>token := t\<rparr>) policy p
              = validateInvoiceAgainstPolicy now iv policy p)"
proof -
  have 1: "validateInvoiceAgainstPolicy now iv policy p = enforce_spec now iv policy p"
    using assms by (rule validate_eq_spec)
  have 2: "enforce_spec now iv policy p = Inr ()
            \<longleftrightarrow> list_all fst (enforcement_checks now iv policy p)"
  proof (cases "find (\<lambda>c. \<not> fst c) (enforcement_checks now iv policy p)")
    case None
    then have "list_all fst (enforcement_checks now iv policy p)"
      by (force simp: find_None_iff list_all_iff)
    with None show ?thesis by (simp add: enforce_spec_def)
  next
    case (Some c)
    then obtain ys zs where "enforcement_checks now iv policy p = ys @ c # zs" "\<not> fst c"
      using find_first_split [of "\<lambda>c. \<not> fst c" "enforcement_checks now iv policy p" c] by blast
    then have "\<not> list_all fst (enforcement_checks now iv policy p)"
      by simp
    with Some show ?thesis by (simp add: enforce_spec_def)
  qed
  have 3: "allowedRecipients policy = [] \<longrightarrow>
            validateInvoiceAgainstPolicy now (iv\<lparr>recipient := r\<rparr>) policy p
              = validateInvoiceAgainstPolicy now iv policy p"
    by (simp add: validateInvoiceAgainstPolicy_def)
  have 4: "allowedTokens policy = [] \<longrightarrow>
            validateInvoiceAgainstPolicy now (iv\<lparr>token := t\<rparr>) policy p
              = validateInvoiceAgainstPolicy now iv policy p"
    by (simp add: validateInvoiceAgainstPolicy_def)
  from 1 2 3 4 show ?thesis by simp
qed

theorem validateInvoiceAgainstPolicy_enforces_in_order_witness:
  "isAmountString (amount sample_invoice) \<and> isAmountString (maxAmount sample_policy)
   \<and> validateInvoiceAgainstPolicy 1700000000 sample_invoice sample_policy
         ''0x1111111111111111111111111111111111111111'' = Inr ()
   \<and> validateInvoiceAgainstPolicy 1700000000 (sample_invoice\<lparr>dueAt := 1, amount := ''900000000''\<rparr>)
         sample_policy ''0x1111111111111111111111111111111111111111'' = Inl InvoiceExpired
   \<and> validateInvoiceAgainstPolicy 1700000000 (sample_invoice\<lparr>amount := ''900000000''\<rparr>)
         sample_policy ''0x1111111111111111111111111111111111111111''
       = Inl (OverPolicyBudget 900000000 300000000)"
proof -
  have h1: "isAmountString (amount sample_invoice)"
    by (simp add: sample_invoice_def isAmountString_def isDigit_def)
  have h2: "isAmountString (maxAmount sample_policy)"
    by (simp add: sample_policy_def isAmountString_def isDigit_def)
  have h3: "isAmountString (amount (sample_invoice\<lparr>dueAt := 1, amount := ''900000000''\<rparr>))"
       "isAmountString (amount (sample_invoice\<lparr>amount := ''900000000''\<rparr>))"
    by (simp_all add: isAmountString_def isDigit_def)
  have e1: "enforce_spec 1700000000 sample_invoice sample_policy
         ''0x1111111111111111111111111111111111111111'' = Inr ()"
    by (simp add: enforce_spec_def enforcement_checks_def sample_invoice_def sample_policy_def
        CHAIN_ID_def payerSet_def decimalValue_def digitValue_def string_eval)
  have e2: "enforce_spec 1700000000 (sample_invoice\<lparr>dueAt := 1, amount := ''900000000''\<rparr>)
         sample_policy ''0x1111111111111111111111111111111111111111'' = Inl InvoiceExpired"
    by (simp add: enforce_spec_def enforcement_checks_def sample_invoice_def sample_policy_def
        CHAIN_ID_def payerSet_def decimalValue_def digitValue_def)
  have e3: "enforce_spec 1700000000 (sample_invoice\<lparr>amount := ''900000000''\<rparr>)
         sample_policy ''0x1111111111111111111111111111111111111111''
       = Inl (OverPolicyBudget 900000000 300000000)"
    by (simp add: enforce_spec_def enforcement_checks_def sample_invoice_def sample_policy_def
        CHAIN_ID_def payerSet_def decimalValue_def digitValue_def)
  show ?thesis
    using validateInvoiceAgainstPolicy_enforces_in_order [OF h1 h2]
      validateInvoiceAgainstPolicy_enforces_in_order [OF h3(1) h2]
      validateInvoiceAgainstPolicy_enforces_in_order [OF h3(2) h2]
      h1 h2 e1 e2 e3
    by simp
qed

subsection \<open>Settlement confirmation\<close>






lemma sample_match: "matchSettlement sample_invoice [sample_log] = Inr (Some sample_log)"
proof -
  have "isAmountString (amount sample_invoice)"
    by (simp add: sample_invoice_def isAmountString_def isDigit_def)
  then have "matchSettlement sample_invoice [sample_log]
      = Inr (find (event_satisfies_invoice sample_invoice) [sample_log])"
    by (rule matchSettlement_find)
  then show ?thesis using sample_log_satisfies by simp
qed



subsection \<open>Settlement confirmation credential\<close>

text \<open>
  Claim C8, as the code has it. The claim says a credential is always required and that a
  missing \<^verbatim>\<open>MERCHANT_CONFIRM_TOKEN\<close> stops the service. The code makes the credential
  optional: with no token configured \<^verbatim>\<open>requireSettlementAuthOrError\<close> lets every request
  through, and the request below, which carries no credential, confirms an order.
\<close>

theorem app_post_confirm_open_without_token:
  "fst (app_post_confirm None sample_env sample_state
          \<lparr>confirm_clientIp = ''203.0.113.9'', confirm_token_header = None,
           confirm_body = Some sample_confirm_body\<rparr>)
     = ConfirmResponse ''INV-1'' sample_txHash False
   \<and> map_option status
        (orders (snd (app_post_confirm None sample_env sample_state
          \<lparr>confirm_clientIp = ''203.0.113.9'', confirm_token_header = None,
           confirm_body = Some sample_confirm_body\<rparr>)) ''INV-1'') = Some confirmed"
proof -
  have "confirmSettlement sample_env
          (sample_state\<lparr>settlementRateLimiter := l\<rparr>) sample_confirm_body
     = (ConfirmResponse ''INV-1'' sample_txHash False,
        sample_confirmed_state\<lparr>settlementRateLimiter := l\<rparr>)" for l
  proof -
    have "sample_txHash \<noteq> []" by (simp add: sample_txHash_def)
    then show ?thesis
      by (simp add: confirmSettlement_def sample_env_def sample_state_def sample_match
          sample_confirmed_state_def sample_confirm_body_def)
        (simp add: sample_invoice_def)
  qed
  then show ?thesis
    by (simp add: app_post_confirm_def check_def sample_state_def sample_limiter_def
        requireSettlementAuthOrError_def sample_env_def sample_confirmed_state_def
        split: prod.splits)
qed

text \<open>
  Claim C8, amended. When a confirm token is configured (not empty), a request whose
  \<^verbatim>\<open>x-merchant-confirm-token\<close> header is not exactly that token is refused, with 401 or,
  when the rate limiter refuses first, with 429; the ledger is not consulted and no
  order changes. When no token is configured, or an empty one, the credential check lets
  every request through.
\<close>

theorem app_post_confirm_requires_configured_token:
  "(tok \<noteq> [] \<and> confirm_token_header req \<noteq> Some tok \<longrightarrow>
      (fst (app_post_confirm (Some tok) env st req)
           = ErrorResponse 401 ''UNAUTHORIZED_SETTLEMENT_CONFIRM'' NoDetails
         \<or> (\<exists>d. fst (app_post_confirm (Some tok) env st req) = ErrorResponse 429 ''RATE_LIMITED'' d))
      \<and> orders (snd (app_post_confirm (Some tok) env st req)) = orders st
      \<and> app_post_confirm (Some tok) (env\<lparr>getTransactionReceipt := g\<rparr>) st req
          = app_post_confirm (Some tok) env st req)
   \<and> (tok \<noteq> [] \<longrightarrow>
        (requireSettlementAuthOrError (Some tok) provided = None \<longleftrightarrow> provided = Some tok))
   \<and> requireSettlementAuthOrError None provided = None
   \<and> requireSettlementAuthOrError (Some []) provided = None"
  by (auto simp: app_post_confirm_def requireSettlementAuthOrError_def Let_def
      split: prod.splits option.splits)

theorem app_post_confirm_requires_configured_token_witness:
  "''secret'' \<noteq> [] \<and> confirm_token_header
        \<lparr>confirm_clientIp = ''203.0.113.9'', confirm_token_header = Some ''guess'',
         confirm_body = Some sample_confirm_body\<rparr> \<noteq> Some ''secret''
   \<and> fst (app_post_confirm (Some ''secret'') sample_env sample_state
          \<lparr>confirm_clientIp = ''203.0.113.9'', confirm_token_header = Some ''guess'',
           confirm_body = Some sample_confirm_body\<rparr>)
       = ErrorResponse 401 ''UNAUTHORIZED_SETTLEMENT_CONFIRM'' NoDetails
   \<and> orders (snd (app_post_confirm (Some ''secret'') sample_env sample_state
          \<lparr>confirm_clientIp = ''203.0.113.9'', confirm_token_header = Some ''guess'',
           confirm_body = Some sample_confirm_body\<rparr>)) = orders sample_state"
proof -
  have "\<not> (\<exists>d. fst (app_post_confirm (Some ''secret'') sample_env sample_state
          \<lparr>confirm_clientIp = ''203.0.113.9'', confirm_token_header = Some ''guess'',
           confirm_body = Some sample_confirm_body\<rparr>) = ErrorResponse 429 ''RATE_LIMITED'' d)"
    by (simp add: app_post_confirm_def check_def sample_state_def sample_limiter_def
        requireSettlementAuthOrError_def split: prod.splits)
  then show ?thesis
    using app_post_confirm_requires_configured_token
      [where tok = "''secret''" and env = sample_env and st = sample_state
         and req = "\<lparr>confirm_clientIp = ''203.0.113.9'', confirm_token_header = Some ''guess'',
           confirm_body = Some sample_confirm_body\<rparr>"]
    by simp
qed

subsection \<open>Invoice creation and idempotency keys\<close>














lemma sample_issued_memo:
  "createInvoiceMemo (InvoiceV1.invoiceId sample_issued_invoice)
     = Inr (memo sample_issued_invoice)"
  unfolding sample_issued_invoice_def by code_simp












subsection \<open>Guardian policy storage\<close>

lemma normalizeAddress_lower:
  "normalizeAddress v = Some a \<Longrightarrow> isAddress v \<and> a = toLowerCase v \<and> toLowerCase a = a"
  by (auto simp: normalizeAddress_def toLowerCase_idem split: if_splits)

lemma dedupeNormalized_lower:
  "dedupeNormalized deduped entries = Some res \<Longrightarrow> \<forall>a \<in> set deduped. toLowerCase a = a \<Longrightarrow>
   \<forall>a \<in> set res. toLowerCase a = a"
proof (induction entries arbitrary: deduped)
  case Nil
  then show ?case by simp
next
  case (Cons entry rest)
  from Cons.prems(1) obtain n where n: "normalizeAddress entry = Some n"
    and r: "dedupeNormalized (if n \<in> set deduped then deduped else deduped @ [n]) rest = Some res"
    by (auto split: option.splits)
  from n have "toLowerCase n = n" using normalizeAddress_lower by blast
  with Cons.prems(2) have "\<forall>a \<in> set (if n \<in> set deduped then deduped else deduped @ [n]). toLowerCase a = a"
    by auto
  with r show ?case by (rule Cons.IH)
qed

lemma dedupeNormalized_distinct:
  "dedupeNormalized deduped entries = Some res \<Longrightarrow> distinct deduped \<Longrightarrow> distinct res"
proof (induction entries arbitrary: deduped)
  case Nil
  then show ?case by simp
next
  case (Cons entry rest)
  from Cons.prems(1) obtain n where n: "normalizeAddress entry = Some n"
    and r: "dedupeNormalized (if n \<in> set deduped then deduped else deduped @ [n]) rest = Some res"
    by (auto split: option.splits)
  from Cons.prems(2) have "distinct (if n \<in> set deduped then deduped else deduped @ [n])"
    by auto
  with r show ?case by (rule Cons.IH)
qed

lemma parseAddressArray_lower:
  "parseAddressArray x = Inr res \<Longrightarrow> (\<forall>a \<in> set res. toLowerCase a = a) \<and> distinct res"
  using dedupeNormalized_lower [of "[]" _ res] dedupeNormalized_distinct [of "[]" _ res]
  by (auto simp: parseAddressArray_def split: address_array.splits if_splits option.splits)

lemma post_delegation_success:
  assumes "post_delegation cfg ms now st req = (PolicyJson pol, st')"
  shows "\<exists>body. policy_request_body req = PolicyBody body
           \<and> normalizeAddress (body_owner body) = Some (owner pol)
           \<and> parseAddressArray (body_allowedRecipients body) = Inr (allowedRecipients pol)
           \<and> parseAddressArray (body_allowedTokens body) = Inr (allowedTokens pol)
           \<and> policies st' = (policies st)(owner pol \<mapsto> pol)"
  using assms
  by (auto simp: post_delegation_def Let_def
      split: prod.splits if_splits policy_request_body.splits sum.splits option.splits)

lemma checksumAddress_cong:
  assumes "toLowerCase (drop 2 a) = toLowerCase (drop 2 b)"
  shows "checksumAddress a = checksumAddress b"
  using assms by (simp add: checksumAddress_def)

lemma isAddress_mixed_case_unique:
  assumes "isAddress a" and "isAddress b"
    and "toLowerCase a \<noteq> a" and "toLowerCase b \<noteq> b"
    and "toLowerCase (drop 2 a) = toLowerCase (drop 2 b)"
  shows "a = b"
proof -
  from assms(1,3) have ca: "checksumAddress a = a"
    by (simp add: isAddress_def split: if_splits)
  from assms(2,4) have cb: "checksumAddress b = b"
    by (simp add: isAddress_def split: if_splits)
  have "a = checksumAddress a" using ca by (rule sym)
  also have "\<dots> = checksumAddress b" using assms(5) by (rule checksumAddress_cong)
  also have "\<dots> = b" by (rule cb)
  finally show ?thesis .
qed


lemma sample_recipient_address:
  "isAddress ''0x300a2017f8232dea84ca60b01aaa83df35a692c3''"
  "toLowerCase ''0x300a2017f8232dea84ca60b01aaa83df35a692c3''
     = ''0x300a2017f8232dea84ca60b01aaa83df35a692c3''"
  by (simp_all add: isAddress_def addressRegex_def isHexDigit_def toLowerCase_def lowerChar_hex)

lemma sample_owner_address:
  "isAddress ''0xaa00000000000000000000000000000000000000''"
  "toLowerCase ''0xaa00000000000000000000000000000000000000''
     = ''0xaa00000000000000000000000000000000000000''"
  by (simp_all add: isAddress_def addressRegex_def isHexDigit_def toLowerCase_def lowerChar_hex)

lemma sample_max_amount: "BigInt ''200000000'' = Some 200000000" "isAmountString ''200000000''"
  by (simp_all add: BigInt_def trimString_def isStrWhiteSpaceChar_def parseNumeral_def
      digitValue_def isAmountString_def isDigit_def)

lemma sample_write:
  "post_delegation sample_guardian_config 1700000000000 1700000000 empty_guardian_state
       sample_policy_request
     = (PolicyJson sample_written_policy,
        \<lparr>policies = Map.empty(''0xaa00000000000000000000000000000000000000'' \<mapsto> sample_written_policy),
         writeRateLimiter = sample_limiter\<lparr>windows :=
           Map.empty(''write-policy:203.0.113.9'' \<mapsto> \<lparr>count = 1, resetAt = 1700000060000\<rparr>)\<rparr>\<rparr>)"
  by (simp add: post_delegation_def sample_guardian_config_def empty_guardian_state_def
      sample_policy_request_def sample_written_policy_def sample_limiter_def check_def
      normalizeAddress_def sample_recipient_address sample_owner_address sample_max_amount
      parseAddressArray_def MAX_POLICY_LIST_ENTRIES_def isInteger_def
      MAX_POLICY_DURATION_SECONDS_def Let_def)


lemma get_delegation_needs_address:
  "get_delegation st v = PolicyJson pol \<Longrightarrow> isAddress v"
  by (auto simp: get_delegation_def normalizeAddress_def split: if_splits option.splits)

text \<open>
  Claim C9, as the code has it. The claim says a read with any case variant of the owner
  address returns the stored policy. The read validates the spelling with \<^verbatim>\<open>isAddress\<close>
  first: after the sample write for \<^verbatim>\<open>0xaa00...\<close>, the variant \<^verbatim>\<open>0Xaa00...\<close> is answered
  with 400, and of the two variants \<^verbatim>\<open>0xAa00...\<close> and \<^verbatim>\<open>0xaA00...\<close> at most one (the
  checksum spelling, if it is one of them) can return the policy.
\<close>

theorem get_delegation_rejects_case_variant:
  "fst (post_delegation sample_guardian_config 1700000000000 1700000000 empty_guardian_state
          sample_policy_request) = PolicyJson sample_written_policy
   \<and> toLowerCase ''0Xaa00000000000000000000000000000000000000'' = owner sample_written_policy
   \<and> get_delegation sample_guardian_state ''0Xaa00000000000000000000000000000000000000''
       = GuardianError 400 ''Invalid owner address''
   \<and> toLowerCase ''0xAa00000000000000000000000000000000000000'' = owner sample_written_policy
   \<and> toLowerCase ''0xaA00000000000000000000000000000000000000'' = owner sample_written_policy
   \<and> \<not> (get_delegation sample_guardian_state ''0xAa00000000000000000000000000000000000000''
            = PolicyJson sample_written_policy
          \<and> get_delegation sample_guardian_state ''0xaA00000000000000000000000000000000000000''
            = PolicyJson sample_written_policy)"
proof -
  have l: "toLowerCase ''0Xaa00000000000000000000000000000000000000'' = owner sample_written_policy"
    "toLowerCase ''0xAa00000000000000000000000000000000000000'' = owner sample_written_policy"
    "toLowerCase ''0xaA00000000000000000000000000000000000000'' = owner sample_written_policy"
    by (simp_all add: sample_written_policy_def toLowerCase_def lowerChar_hex lowerChar_def
        upperChars_def lowerChars_def)
  have x: "get_delegation sample_guardian_state ''0Xaa00000000000000000000000000000000000000''
       = GuardianError 400 ''Invalid owner address''"
    by (simp add: get_delegation_def normalizeAddress_def isAddress_def addressRegex_def)
  have n: "\<not> (isAddress ''0xAa00000000000000000000000000000000000000''
          \<and> isAddress ''0xaA00000000000000000000000000000000000000'')"
  proof
    assume a: "isAddress ''0xAa00000000000000000000000000000000000000''
          \<and> isAddress ''0xaA00000000000000000000000000000000000000''"
    have "''0xAa00000000000000000000000000000000000000'' = ''0xaA00000000000000000000000000000000000000''"
    proof (rule isAddress_mixed_case_unique)
      show "isAddress ''0xAa00000000000000000000000000000000000000''" using a by simp
      show "isAddress ''0xaA00000000000000000000000000000000000000''" using a by simp
      show "toLowerCase ''0xAa00000000000000000000000000000000000000''
          \<noteq> ''0xAa00000000000000000000000000000000000000''"
        by (simp add: toLowerCase_def lowerChar_hex)
      show "toLowerCase ''0xaA00000000000000000000000000000000000000''
          \<noteq> ''0xaA00000000000000000000000000000000000000''"
        by (simp add: toLowerCase_def lowerChar_hex)
      show "toLowerCase (drop 2 ''0xAa00000000000000000000000000000000000000'')
          = toLowerCase (drop 2 ''0xaA00000000000000000000000000000000000000'')"
        by (simp add: toLowerCase_def lowerChar_hex)
    qed
    then show False by simp
  qed
  have "\<not> (get_delegation sample_guardian_state ''0xAa00000000000000000000000000000000000000''
            = PolicyJson sample_written_policy
          \<and> get_delegation sample_guardian_state ''0xaA00000000000000000000000000000000000000''
            = PolicyJson sample_written_policy)"
    using n get_delegation_needs_address by blast
  then show ?thesis
    using l x by (simp add: sample_write)
qed

text \<open>
  Claim C9, amended. After a successful policy write, the stored policy holds lower-cased
  addresses only (owner, allowed recipients, allowed tokens; the owner is the lower-cased
  spelling of the owner written), and a read with any spelling of the owner that
  \<^verbatim>\<open>isAddress\<close> accepts (the all-lower-case spelling or the checksum spelling) returns
  exactly that policy; a spelling that \<^verbatim>\<open>isAddress\<close> refuses is answered with 400.
\<close>

theorem guardian_policy_roundtrip:
  "post_delegation cfg nowMillis now st req = (PolicyJson pol, st') \<longrightarrow>
     (\<exists>body. policy_request_body req = PolicyBody body
         \<and> owner pol = toLowerCase (body_owner body))
     \<and> toLowerCase (owner pol) = owner pol
     \<and> (\<forall>a \<in> set (allowedRecipients pol). toLowerCase a = a)
     \<and> (\<forall>a \<in> set (allowedTokens pol). toLowerCase a = a)
     \<and> (isAddress v \<and> toLowerCase v = owner pol \<longrightarrow> get_delegation st' v = PolicyJson pol)
     \<and> (\<not> isAddress v \<longrightarrow> get_delegation st' v = GuardianError 400 ''Invalid owner address'')
     \<and> (isAddress v \<longleftrightarrow> addressRegex v \<and> (toLowerCase v = v \<or> checksumAddress v = v))"
proof
  assume a: "post_delegation cfg nowMillis now st req = (PolicyJson pol, st')"
  then obtain body where b: "policy_request_body req = PolicyBody body"
    "normalizeAddress (body_owner body) = Some (owner pol)"
    "parseAddressArray (body_allowedRecipients body) = Inr (allowedRecipients pol)"
    "parseAddressArray (body_allowedTokens body) = Inr (allowedTokens pol)"
    "policies st' = (policies st)(owner pol \<mapsto> pol)"
    using post_delegation_success by blast
  from b(2) have o: "owner pol = toLowerCase (body_owner body)" "toLowerCase (owner pol) = owner pol"
    using normalizeAddress_lower by blast+
  have 1: "\<exists>body. policy_request_body req = PolicyBody body
         \<and> owner pol = toLowerCase (body_owner body)"
    using b(1) o(1) by blast
  have 3: "\<forall>a \<in> set (allowedRecipients pol). toLowerCase a = a"
    using b(3) parseAddressArray_lower by blast
  have 4: "\<forall>a \<in> set (allowedTokens pol). toLowerCase a = a"
    using b(4) parseAddressArray_lower by blast
  have 5: "isAddress v \<and> toLowerCase v = owner pol \<longrightarrow> get_delegation st' v = PolicyJson pol"
    by (simp add: get_delegation_def normalizeAddress_def b(5))
  have 6: "\<not> isAddress v \<longrightarrow> get_delegation st' v = GuardianError 400 ''Invalid owner address''"
    by (simp add: get_delegation_def normalizeAddress_def)
  have 7: "isAddress v \<longleftrightarrow> addressRegex v \<and> (toLowerCase v = v \<or> checksumAddress v = v)"
    by (auto simp: isAddress_def)
  from 1 o(2) 3 4 5 6 7
  show "(\<exists>body. policy_request_body req = PolicyBody body
         \<and> owner pol = toLowerCase (body_owner body))
     \<and> toLowerCase (owner pol) = owner pol
     \<and> (\<forall>a \<in> set (allowedRecipients pol). toLowerCase a = a)
     \<and> (\<forall>a \<in> set (allowedTokens pol). toLowerCase a = a)
     \<and> (isAddress v \<and> toLowerCase v = owner pol \<longrightarrow> get_delegation st' v = PolicyJson pol)
     \<and> (\<not> isAddress v \<longrightarrow> get_delegation st' v = GuardianError 400 ''Invalid owner address'')
     \<and> (isAddress v \<longleftrightarrow> addressRegex v \<and> (toLowerCase v = v \<or> checksumAddress v = v))"
    by blast
qed

theorem guardian_policy_roundtrip_witness:
  "post_delegation sample_guardian_config 1700000000000 1700000000 empty_guardian_state
       sample_policy_request = (PolicyJson sample_written_policy, sample_guardian_state)
   \<and> isAddress ''0xaa00000000000000000000000000000000000000''
   \<and> get_delegation sample_guardian_state ''0xaa00000000000000000000000000000000000000''
       = PolicyJson sample_written_policy
   \<and> allowedRecipients sample_written_policy = [''0x300a2017f8232dea84ca60b01aaa83df35a692c3'']"
proof -
  have w: "post_delegation sample_guardian_config 1700000000000 1700000000 empty_guardian_state
       sample_policy_request = (PolicyJson sample_written_policy, sample_guardian_state)"
    by (simp add: sample_guardian_state_def sample_write)
  have o: "toLowerCase ''0xaa00000000000000000000000000000000000000'' = owner sample_written_policy"
    by (simp add: sample_owner_address sample_written_policy_def)
  show ?thesis
    using guardian_policy_roundtrip
      [where cfg = sample_guardian_config and nowMillis = 1700000000000 and now = 1700000000
         and st = empty_guardian_state and req = sample_policy_request
         and pol = sample_written_policy and st' = sample_guardian_state
         and v = "''0xaa00000000000000000000000000000000000000''"]
      w o sample_owner_address(1)
    by (simp add: sample_written_policy_def)
qed

subsection \<open>Memo derivation\<close>

lemma take_append_replicate:
  "take n (xs @ replicate n x) = take n xs @ replicate (n - length xs) x"
  by simp

lemma length_bytesToHex: "length (bytesToHex bs) = 2 * length bs"
  by (induction bs) (simp_all add: bytesToHex_def)

lemma bytesToHex_append: "bytesToHex (xs @ ys) = bytesToHex xs @ bytesToHex ys"
  by (simp add: bytesToHex_def)

lemma bytesToHex_take: "bytesToHex (take n bs) = take (2 * n) (bytesToHex bs)"
proof (induction bs arbitrary: n)
  case Nil
  then show ?case by (simp add: bytesToHex_def)
next
  case (Cons b bs)
  show ?case
  proof (cases n)
    case 0
    then show ?thesis by (simp add: bytesToHex_def)
  next
    case (Suc m)
    have "bytesToHex (take m bs) = take (2 * m) (bytesToHex bs)" by (rule Cons.IH)
    then show ?thesis using Suc by (simp add: bytesToHex_def)
  qed
qed

lemma bytesToHex_zeros: "bytesToHex (replicate n 0) = replicate (2 * n) (CHR ''0'')"
  by (induction n) (simp_all add: bytesToHex_def hexDigitChar_def)

lemma createInvoiceMemo_handler_spec:
  "createInvoiceMemo_handler ident = deriveMemo_spec ident"
proof -
  have "take 64 (bytesToHex (utf8Bytes ident) @ replicate 64 (CHR ''0''))
      = bytesToHex (take 32 (utf8Bytes ident @ replicate 32 0))"
    by (simp add: bytesToHex_take bytesToHex_append bytesToHex_zeros length_bytesToHex)
  then show ?thesis
    by (simp add: createInvoiceMemo_handler_def deriveMemo_spec_def Let_def)
qed

lemma memo_eval:
  "createInvoiceMemo ''INV-1''
     = Inr ''0x000000000000000000000000000000000000000000000000000000494e562d31''"
  "createInvoiceMemo_handler ''INV-1''
     = ''0x494e562d31000000000000000000000000000000000000000000000000000000''"
  "deriveMemo_spec ''INV-1''
     = ''0x494e562d31000000000000000000000000000000000000000000000000000000''"
  by code_simp+


lemma memo_too_long:
  "createInvoiceMemo ''INV-0123456789-0123456789-0123456''
     = Inl SizeExceedsPaddingSizeError"
  "createInvoiceMemo_handler ''INV-0123456789-0123456789-0123456''
     = ''0x494e562d303132333435363738392d303132333435363738392d303132333435''"
  by code_simp+

text \<open>
  Claim C2. The memo is the UTF-8 bytes of the invoice id, right-padded with zero bytes
  to 32 bytes and cut to the first 32 bytes when longer, and both implementations produce
  it. The handler of api/invoices.ts does, for every id; \<^verbatim>\<open>createInvoiceMemo\<close> of
  shared/invoice.ts does not: for \<^verbatim>\<open>INV-1\<close> it puts the zeros in front, and for an id of
  33 bytes it throws where the handler cuts.
\<close>

theorem createInvoiceMemo_pads_left:
  "createInvoiceMemo_handler ident = deriveMemo_spec ident
   \<and> createInvoiceMemo_handler ''INV-1''
       = ''0x494e562d31000000000000000000000000000000000000000000000000000000''
   \<and> createInvoiceMemo ''INV-1''
       = Inr ''0x000000000000000000000000000000000000000000000000000000494e562d31''
   \<and> createInvoiceMemo ''INV-1'' \<noteq> Inr (createInvoiceMemo_handler ''INV-1'')
   \<and> createInvoiceMemo ''INV-0123456789-0123456789-0123456''
       = Inl SizeExceedsPaddingSizeError
   \<and> createInvoiceMemo_handler ''INV-0123456789-0123456789-0123456''
       = ''0x494e562d303132333435363738392d303132333435363738392d303132333435''"
  using createInvoiceMemo_handler_spec [of ident]
  by (simp add: memo_eval(1,2) memo_too_long)


subsection \<open>Line items\<close>

lemmas address_eval = isAddress_def addressRegex_def isHexDigit_def toLowerCase_def lowerChar_hex

lemmas bigint_eval = BigInt_def trimString_def isStrWhiteSpaceChar_def parseNumeral_def
  digitValue_def isAmountString_def isDigit_def

lemma sample_candidate_accepted: "assertInvoiceV1 num sample_candidate = Inr ()"
  unfolding sample_candidate_def
  by (simp add: assertInvoiceV1_def isObjectValue_def requiredStringFields_def getProp_def
      isNonEmptyString_def stringOf_def INVOICE_VERSION_def isNumberValue_def numberOf_def
      address_eval truthy_def parseAmountString_def testAmountRegex_def toStringOpt_def
      toBigInt_def bigint_eval memoRegex_def checkLineItemsField_def checkLineItem_def
      isStringValue_def isInteger_def sumLineItemTotals_def checkMetadataField_def)

lemma sample_candidate_line_items_refused:
  "normalizeLineItems num (getProp sample_candidate ''lineItems'') = Invalid"
  unfolding sample_candidate_def
  by (simp add: normalizeLineItems_def normalizeLineItem_def getProp_def isObjectValue_def
      isNonEmptyStringWithin_def truthy_def isAmountStringValue_def isNumberValue_def
      numberOf_def isInteger_def toBigInt_def bigint_eval MAX_LINE_ITEMS_def)


lemma isAmountStringValue_BigInt:
  "isAmountStringValue v \<Longrightarrow> toBigInt num v = Some (decimalValue (stringOf v))"
  by (auto simp: isAmountStringValue_def toBigInt_def stringOf_def BigInt_amount_string
      split: option.splits json.splits)

lemma isAmountStringValue_truthy: "isAmountStringValue v \<Longrightarrow> truthy v"
  by (auto simp: isAmountStringValue_def truthy_def isAmountString_def
      split: option.splits json.splits)

lemma normalizeLineItem_product:
  assumes "normalizeLineItem num rawItem = Some item"
    and "unitAmount item = Some u" and "quantity item = Some q"
  shows "decimalValue u * q = decimalValue (totalAmount item)"
proof -
  let ?ua = "getProp rawItem ''unitAmount''"
  let ?qt = "getProp rawItem ''quantity''"
  let ?ta = "getProp rawItem ''totalAmount''"
  from assms(1) have c:
    "isAmountStringValue ?ta"
    "?ua \<noteq> None \<longrightarrow> isAmountStringValue ?ua"
    "?qt \<noteq> None \<longrightarrow> isNumberValue ?qt \<and> isInteger (numberOf ?qt) \<and> numberOf ?qt > 0"
    "\<not> (truthy ?ua \<and> truthy ?qt
        \<and> (case (toBigInt num ?ua, toBigInt num ?qt, toBigInt num ?ta) of
               (Some u, Some q, Some t) \<Rightarrow> u * q \<noteq> t
             | _ \<Rightarrow> True))"
    and i: "item = \<lparr>item_id = (if truthy (getProp rawItem ''id'')
                              then Some (stringOf (getProp rawItem ''id'')) else None),
                  title = stringOf (getProp rawItem ''title''),
                  category = (if truthy (getProp rawItem ''category'')
                              then Some (stringOf (getProp rawItem ''category'')) else None),
                  quantity = (if ?qt \<noteq> None then Some \<lfloor>numberOf ?qt\<rfloor> else None),
                  unitAmount = (if truthy ?ua then Some (stringOf ?ua) else None),
                  totalAmount = stringOf ?ta\<rparr>"
    unfolding normalizeLineItem_def by (auto split: if_splits)
  from i assms(2) have u: "truthy ?ua" "u = stringOf ?ua"
    by (auto split: if_splits)
  from i assms(3) have q: "?qt \<noteq> None" "q = \<lfloor>numberOf ?qt\<rfloor>"
    by (auto split: if_splits)
  from u(1) have "?ua \<noteq> None" by (cases ?ua) (simp_all add: truthy_def)
  with c(2) have bu: "toBigInt num ?ua = Some (decimalValue u)"
    using isAmountStringValue_BigInt u(2) by simp
  from c(1) have bt: "toBigInt num ?ta = Some (decimalValue (stringOf ?ta))"
    by (rule isAmountStringValue_BigInt)
  from q(1) c(3) obtain n where n: "?qt = Some (JNumber n)" "isInteger n" "n > 0"
    by (auto simp: isNumberValue_def numberOf_def split: option.splits json.splits)
  then have bq: "toBigInt num ?qt = Some q" "truthy ?qt"
    using q(2) by (simp_all add: toBigInt_def truthy_def numberOf_def)
  from c(4) u(1) bq bu bt have "decimalValue u * q = decimalValue (stringOf ?ta)"
    by simp
  then show ?thesis using i by simp
qed

text \<open>
  Claim C6. Every invoice that \<^verbatim>\<open>assertInvoiceV1\<close> accepts has
  \<open>unitAmount * quantity = totalAmount\<close> on each line item that carries both fields.
  \<^verbatim>\<open>assertInvoiceV1\<close> checks the format of each field and the sum of the totals, not the
  product: it accepts the sample invoice, whose only line item has unit amount 2,
  quantity 3 and total 5. \<^verbatim>\<open>normalizeLineItems\<close> of the merchant server, which does
  compare the product, refuses the same line items.
\<close>

theorem assertInvoiceV1_accepts_wrong_product:
  "assertInvoiceV1 num sample_candidate = Inr ()
   \<and> getProp sample_candidate ''lineItems''
       = Some (JArray [JObject [(''title'', JString ''Unit''), (''quantity'', JNumber 3),
                                (''unitAmount'', JString ''2''), (''totalAmount'', JString ''5'')]])
   \<and> decimalValue ''2'' * 3 \<noteq> decimalValue ''5''
   \<and> normalizeLineItems num (getProp sample_candidate ''lineItems'') = Invalid"
proof -
  have "getProp sample_candidate ''lineItems''
       = Some (JArray [JObject [(''title'', JString ''Unit''), (''quantity'', JNumber 3),
                                (''unitAmount'', JString ''2''), (''totalAmount'', JString ''5'')]])"
    by (simp add: sample_candidate_def getProp_def)
  moreover have "decimalValue ''2'' * 3 \<noteq> decimalValue ''5''"
    by (simp add: decimalValue_def digitValue_def)
  ultimately show ?thesis
    using sample_candidate_accepted [of num] sample_candidate_line_items_refused [of num]
    by simp
qed

theorem assertInvoiceV1_accepts_wrong_product_witness:
  "assertInvoiceV1 (\<lambda>q. []) sample_candidate = Inr ()
   \<and> normalizeLineItems (\<lambda>q. []) (getProp sample_candidate ''lineItems'') = Invalid"
  using assertInvoiceV1_accepts_wrong_product [of "\<lambda>q. []"] by blast

subsection \<open>Canonical codec\<close>

lemma mset_insertEntry: "mset (insertEntry cmp x ys) = add_mset x (mset ys)"
  by (induction ys) auto

lemma mset_sortEntries: "mset (sortEntries cmp es) = mset es"
  by (induction es) (simp_all add: sortEntries_def mset_insertEntry)

lemma sorted_insertEntry:
  assumes "consistentOn cmp ks" and "fst x \<in> set ks" and "fst ` set ys \<subseteq> set ks"
    and "sorted_wrt (\<lambda>p q. cmp (fst p) (fst q) \<le> 0) ys"
  shows "sorted_wrt (\<lambda>p q. cmp (fst p) (fst q) \<le> 0) (insertEntry cmp x ys)"
  using assms(3,4)
proof (induction ys)
  case Nil
  then show ?case by simp
next
  case (Cons y ys)
  have anti: "\<And>a b. a \<in> set ks \<Longrightarrow> b \<in> set ks \<Longrightarrow> (cmp a b < 0) = (cmp b a > 0)"
    and trans: "\<And>a b c. a \<in> set ks \<Longrightarrow> b \<in> set ks \<Longrightarrow> c \<in> set ks \<Longrightarrow>
                 cmp a b \<le> 0 \<Longrightarrow> cmp b c \<le> 0 \<Longrightarrow> cmp a c \<le> 0"
    using assms(1) unfolding consistentOn_def by blast+
  from Cons.prems have yk: "fst y \<in> set ks" and ysk: "fst ` set ys \<subseteq> set ks"
    and sy: "\<forall>z \<in> set ys. cmp (fst y) (fst z) \<le> 0"
    and sys: "sorted_wrt (\<lambda>p q. cmp (fst p) (fst q) \<le> 0) ys"
    by auto
  show ?case
  proof (cases "cmp (fst x) (fst y) \<le> 0")
    case True
    have "\<forall>z \<in> set ys. cmp (fst x) (fst z) \<le> 0"
    proof
      fix z assume z: "z \<in> set ys"
      then have "fst z \<in> set ks" using ysk by auto
      moreover have "cmp (fst y) (fst z) \<le> 0" using sy z by simp
      ultimately show "cmp (fst x) (fst z) \<le> 0"
        using trans [OF assms(2) yk _ True] by blast
    qed
    with True sy sys show ?thesis by simp
  next
    case False
    then have "cmp (fst x) (fst y) > 0" by simp
    then have "cmp (fst y) (fst x) < 0" using anti [OF yk assms(2)] by simp
    then have yx: "cmp (fst y) (fst x) \<le> 0" by simp
    have "sorted_wrt (\<lambda>p q. cmp (fst p) (fst q) \<le> 0) (insertEntry cmp x ys)"
      using Cons.IH ysk sys by simp
    with False yx sy show ?thesis by (simp add: set_insertEntry)
  qed
qed

lemma sorted_sortEntries:
  assumes "consistentOn cmp ks" and "fst ` set es \<subseteq> set ks"
  shows "sorted_wrt (\<lambda>p q. cmp (fst p) (fst q) \<le> 0) (sortEntries cmp es)"
  using assms(2)
proof (induction es)
  case Nil
  then show ?case by (simp add: sortEntries_def)
next
  case (Cons e es)
  then have "sorted_wrt (\<lambda>p q. cmp (fst p) (fst q) \<le> 0) (sortEntries cmp es)" by simp
  moreover have "fst e \<in> set ks" "fst ` set (sortEntries cmp es) \<subseteq> set ks"
    using Cons.prems by (auto simp: set_sortEntries)
  ultimately have "sorted_wrt (\<lambda>p q. cmp (fst p) (fst q) \<le> 0)
                     (insertEntry cmp e (sortEntries cmp es))"
    using sorted_insertEntry [OF assms(1)] by blast
  then show ?case by (simp add: sortEntries_def)
qed

lemma sorted_wrt_unique:
  assumes "sorted_wrt le xs" and "sorted_wrt le ys" and "mset xs = mset ys"
    and "\<And>x y. x \<in> set xs \<Longrightarrow> y \<in> set xs \<Longrightarrow> le x y \<Longrightarrow> le y x \<Longrightarrow> x = y"
  shows "xs = ys"
  using assms
proof (induction xs arbitrary: ys)
  case Nil
  then show ?case by simp
next
  case (Cons x xs)
  from Cons.prems(3) obtain y ys' where ys: "ys = y # ys'"
    by (cases ys) auto
  have sets: "set (x # xs) = set (y # ys')"
    using Cons.prems(3) ys mset_eq_setD by blast
  have "x = y"
  proof (rule ccontr)
    assume ne: "x \<noteq> y"
    from sets have "x \<in> set ys'" using ne by auto
    then have 1: "le y x" using Cons.prems(2) ys by simp
    from sets have "y \<in> set xs" using ne by auto
    then have 2: "le x y" using Cons.prems(1) by simp
    have "y \<in> set (x # xs)" using sets by simp
    then show False using Cons.prems(4) [of x y] 1 2 ne by simp
  qed
  moreover have "xs = ys'"
  proof (rule Cons.IH)
    show "sorted_wrt le xs" using Cons.prems(1) by simp
    show "sorted_wrt le ys'" using Cons.prems(2) ys by simp
    show "mset xs = mset ys'" using Cons.prems(3) ys \<open>x = y\<close> by simp
    show "\<And>a b. a \<in> set xs \<Longrightarrow> b \<in> set xs \<Longrightarrow> le a b \<Longrightarrow> le b a \<Longrightarrow> a = b"
      using Cons.prems(4) by simp
  qed
  ultimately show ?case using ys by simp
qed

lemma sortEntries_permutation:
  assumes "consistentOn cmp (map fst es)" and "distinguishes cmp (map fst es)"
    and "distinct (map fst es)" and "mset es' = mset es"
  shows "sortEntries cmp es' = sortEntries cmp es"
proof (rule sorted_wrt_unique)
  have s: "set es' = set es" using assms(4) by (rule mset_eq_setD)
  show "sorted_wrt (\<lambda>p q. cmp (fst p) (fst q) \<le> 0) (sortEntries cmp es')"
    using sorted_sortEntries [OF assms(1), of es'] s by simp
  show "sorted_wrt (\<lambda>p q. cmp (fst p) (fst q) \<le> 0) (sortEntries cmp es)"
    using sorted_sortEntries [OF assms(1), of es] by simp
  show "mset (sortEntries cmp es') = mset (sortEntries cmp es)"
    using assms(4) by (simp add: mset_sortEntries)
  fix x y
  assume x: "x \<in> set (sortEntries cmp es')" and y: "y \<in> set (sortEntries cmp es')"
    and xy: "cmp (fst x) (fst y) \<le> 0" and yx: "cmp (fst y) (fst x) \<le> 0"
  from x y s have mem: "x \<in> set es" "y \<in> set es" by (simp_all add: set_sortEntries)
  then have k: "fst x \<in> set (map fst es)" "fst y \<in> set (map fst es)" by auto
  have "(cmp (fst x) (fst y) < 0) = (cmp (fst y) (fst x) > 0)"
    using assms(1) k unfolding consistentOn_def by blast
  with xy yx have "cmp (fst x) (fst y) = 0" by simp
  then have "fst x = fst y"
    using assms(2) k unfolding distinguishes_def by blast
  moreover have "inj_on fst (set es)" using assms(3) by (simp add: distinct_map)
  ultimately show "x = y" using mem by (simp add: inj_on_def)
qed


lemma localeCompare_sample:
  "localeCompare_alnum ''B'' ''a'' = 1" "localeCompare_alnum ''a'' ''B'' = -1"
  "localeCompare_alnum ''a'' ''a'' = 0" "localeCompare_alnum ''B'' ''B'' = 0"
  "codeUnitCompare ''B'' ''a'' = -1"
  by (simp_all add: localeCompare_alnum_def collationWeight_def upperChars_def codeUnitCompare_def)

lemma sample_object_sorted:
  "sortEntries localeCompare_alnum sample_object = [(''a'', JNumber 7), (''B'', JNumber 20)]"
  "sortEntries localeCompare_alnum (rev sample_object) = [(''a'', JNumber 7), (''B'', JNumber 20)]"
  by (simp_all add: sortEntries_def sample_object_def localeCompare_sample)

lemma decimalText_sample: "decimalText 20 = ''20''" "decimalText 7 = ''7''"
  by (simp_all add: decimalText.simps hexDigitChar_def)

text \<open>
  Claim C5, as the code has it. The claim says object keys are sorted by raw code-point
  order. The comparator is \<^verbatim>\<open>localeCompare\<close>: for the object with keys \<^verbatim>\<open>B\<close> and \<^verbatim>\<open>a\<close>
  the canonical text puts \<^verbatim>\<open>a\<close> first, while in code-point order \<^verbatim>\<open>B\<close> (66) comes
  before \<^verbatim>\<open>a\<close> (97).
\<close>

theorem canonicalStringify_not_code_point_order:
  "map fst (sortEntries localeCompare_alnum sample_object) = [''a'', ''B'']
   \<and> codeUnitCompare ''B'' ''a'' < 0
   \<and> canonicalStringify localeCompare_alnum decimalText (JObject sample_object)
       = ''{'' @ [CHR 0x22] @ ''a'' @ [CHR 0x22] @ '':7,'' @ [CHR 0x22] @ ''B'' @ [CHR 0x22] @ '':20}''"
  by (simp add: sample_object_sorted localeCompare_sample decimalText_sample
      quoteJSONString_def escapeJSONChar_def)

text \<open>
  Claim C5, amended. \<open>canonicalStringify\<close> is a total function; an array is printed
  element by element in its order; an object is printed entry by entry in the order of a
  stable sort of its keys under the comparator (the host's \<^verbatim>\<open>localeCompare\<close>), which
  keeps all entries and, when the comparator is consistent on the keys, leaves them in
  ascending order of the comparator. Two objects with the same key-value pairs
  canonicalize to the same text when the comparator is consistent on their keys and
  tells any two of them apart.
\<close>

theorem canonicalStringify_sorted_by_comparator:
  "canonicalStringify cmp num (JArray xs)
     = ''['' @ join '','' (map (canonicalStringify cmp num) xs) @ '']''
   \<and> canonicalStringify cmp num (JObject es)
     = ''{'' @ join '',''
         (map (\<lambda>(key, itemValue). quoteJSONString key @ '':'' @ canonicalStringify cmp num itemValue)
            (sortEntries cmp es)) @ ''}''
   \<and> mset (sortEntries cmp es) = mset es
   \<and> (consistentOn cmp (map fst es) \<longrightarrow>
        sorted_wrt (\<lambda>p q. cmp (fst p) (fst q) \<le> 0) (sortEntries cmp es))
   \<and> (consistentOn cmp (map fst es) \<and> distinguishes cmp (map fst es)
        \<and> distinct (map fst es) \<and> mset es' = mset es \<longrightarrow>
        canonicalStringify cmp num (JObject es') = canonicalStringify cmp num (JObject es))"
proof -
  have 4: "consistentOn cmp (map fst es) \<longrightarrow>
        sorted_wrt (\<lambda>p q. cmp (fst p) (fst q) \<le> 0) (sortEntries cmp es)"
    using sorted_sortEntries [of cmp "map fst es" es] by simp
  have 5: "consistentOn cmp (map fst es) \<and> distinguishes cmp (map fst es)
        \<and> distinct (map fst es) \<and> mset es' = mset es \<longrightarrow>
        canonicalStringify cmp num (JObject es') = canonicalStringify cmp num (JObject es)"
    using sortEntries_permutation [of cmp es es'] by simp
  show ?thesis
    using 4 5 by (simp add: mset_sortEntries)
qed

theorem canonicalStringify_sorted_by_comparator_witness:
  "consistentOn localeCompare_alnum (map fst sample_object)
   \<and> distinguishes localeCompare_alnum (map fst sample_object)
   \<and> distinct (map fst sample_object)
   \<and> mset (rev sample_object) = mset sample_object
   \<and> canonicalStringify localeCompare_alnum decimalText (JObject (rev sample_object))
       = canonicalStringify localeCompare_alnum decimalText (JObject sample_object)
   \<and> canonicalStringify localeCompare_alnum decimalText (JObject sample_object)
       = ''{'' @ [CHR 0x22] @ ''a'' @ [CHR 0x22] @ '':7,'' @ [CHR 0x22] @ ''B'' @ [CHR 0x22] @ '':20}''"
proof -
  have h: "consistentOn localeCompare_alnum (map fst sample_object)"
    "distinguishes localeCompare_alnum (map fst sample_object)"
    "distinct (map fst sample_object)"
    by (simp_all add: consistentOn_def distinguishes_def sample_object_def localeCompare_sample)
  have e: "canonicalStringify localeCompare_alnum decimalText (JObject sample_object)
       = ''{'' @ [CHR 0x22] @ ''a'' @ [CHR 0x22] @ '':7,'' @ [CHR 0x22] @ ''B'' @ [CHR 0x22] @ '':20}''"
    by (simp add: sample_object_sorted localeCompare_sample decimalText_sample
      quoteJSONString_def escapeJSONChar_def)
  show ?thesis
    using canonicalStringify_sorted_by_comparator
      [where cmp = localeCompare_alnum and es = sample_object and es' = "rev sample_object"
         and num = decimalText]
      h e
    by simp
qed

subsection \<open>Rate limiter\<close>

text \<open>
  Claim C10. Whenever \<^verbatim>\<open>check\<close> is called for a key that has no window, or at a time
  at or past the window's \<^verbatim>\<open>resetAt\<close>, it stores a fresh window with count 1 (reset at
  \<open>now + windowMs\<close>) and answers \<open>allowed = true\<close>, whatever \<open>maxRequests\<close> is (also
  for \<open>maxRequests = 0\<close>); in a live window the request is refused exactly when the count
  has reached \<open>maxRequests\<close>; and every allowed answer carries \<open>retryAfterSeconds = 0\<close>.
\<close>

theorem check_fresh_window_always_allowed:
  "(window_elapsed l key now \<longrightarrow>
      check l key now =
        (\<lparr>allowed = True, retryAfterSeconds = 0\<rparr>,
         l\<lparr>windows := (windows l)(key \<mapsto> \<lparr>count = 1, resetAt = now + windowMs l\<rparr>)\<rparr>))
   \<and> (window_elapsed (l\<lparr>maxRequests := 0\<rparr>) key now \<longrightarrow>
        allowed (fst (check (l\<lparr>maxRequests := 0\<rparr>) key now)))
   \<and> (\<not> window_elapsed l key now \<longrightarrow>
        (allowed (fst (check l key now)) \<longleftrightarrow>
           (\<exists>w. windows l key = Some w \<and> count w < maxRequests l)))
   \<and> (allowed (fst (check l key now)) \<longrightarrow> retryAfterSeconds (fst (check l key now)) = 0)"
  by (auto simp: check_def window_elapsed_def split: option.splits)

theorem check_fresh_window_always_allowed_witness:
  "window_elapsed \<lparr>maxRequests = 0, windowMs = 1000, windows = Map.empty\<rparr> ''k'' 5
   \<and> check \<lparr>maxRequests = 0, windowMs = 1000, windows = Map.empty\<rparr> ''k'' 5 =
       (\<lparr>allowed = True, retryAfterSeconds = 0\<rparr>,
        \<lparr>maxRequests = 0, windowMs = 1000,
         windows = Map.empty(''k'' \<mapsto> \<lparr>count = 1, resetAt = 1005\<rparr>)\<rparr>)
   \<and> \<not> window_elapsed \<lparr>maxRequests = 0, windowMs = 1000,
         windows = Map.empty(''k'' \<mapsto> \<lparr>count = 1, resetAt = 1005\<rparr>)\<rparr> ''k'' 6
   \<and> \<not> allowed (fst (check \<lparr>maxRequests = 0, windowMs = 1000,
         windows = Map.empty(''k'' \<mapsto> \<lparr>count = 1, resetAt = 1005\<rparr>)\<rparr> ''k'' 6))"
  using check_fresh_window_always_allowed
    [of "\<lparr>maxRequests = 0, windowMs = 1000, windows = Map.empty\<rparr>" "''k''" 5]
    check_fresh_window_always_allowed
    [of "\<lparr>maxRequests = 0, windowMs = 1000,
         windows = Map.empty(''k'' \<mapsto> \<lparr>count = 1, resetAt = 1005\<rparr>)\<rparr>" "''k''" 6]
  by (simp add: window_elapsed_def)

end
